theory Spec2Isabelle
  imports Complex_Main
begin

section \<open>Order tracking backend: the data the code reads\<close>

text \<open>
  The repository holds two versions of one Express service in front of the Shopify Admin
  API. Definitions that differ between them carry a suffix:
  \<^item> \<open>_A\<close>: \<^verbatim>\<open>src/unnamed/part_000\<close> (status driven by the \<open>fulfillment_stage\<close>
    metafield, payment slip stored as a file reference);
  \<^item> \<open>_B\<close>: \<^verbatim>\<open>src/order-tracking-backend.js\<close> (status driven by fulfillment status
    and tags, payment slip stored inline as JSON).
  Code that is textually the same in both files is modelled once. The model covers the
  request clients, the two helper functions and the four route handlers under
  \<open>/api/order\<close>; console logging, the CORS middleware, the health route and the
  upload filter send nothing to the platform and are left out.

  An order is the JSON object the platform returns. Its members are typed as the platform
  documents them: a member that may be \<open>null\<close> is an \<open>option\<close> (\<open>None\<close> is
  \<open>null\<close>), the rest are strings. Numeric ids are held as their decimal text, which is
  what the template strings splice into request paths. \<open>customer_phone\<close> is
  \<open>order.customer?.phone\<close> and \<open>shipping_amount\<close> is
  \<open>order.total_shipping_price_set?.shop_money?.amount\<close>: \<open>None\<close> when the chain
  ends in \<open>undefined\<close> or \<open>null\<close>.
\<close>

record line_item =
  item_id :: string
  item_name :: string
  variant_title :: "string option"
  quantity :: int
  price :: string
  image_url :: "string option"
  product_image :: "string option"
  sku :: "string option"

record order =
  order_id :: string
  order_name :: string
  created_at :: string
  cancelled_at :: "string option"
  financial_status :: "string option"
  fulfillment_status :: "string option"
  tags :: string
  email :: "string option"
  phone :: "string option"
  customer_phone :: "string option"
  currency :: string
  subtotal_price :: string
  total_tax :: string
  total_price :: string
  shipping_amount :: "string option"
  line_items :: "line_item list"

record metafield =
  mf_id :: string
  namespace :: string
  mf_key :: string
  mf_value :: string

text \<open>
  JavaScript's truthiness, for a value that is \<open>null\<close> or a string, and for a string:
  \<open>null\<close> and the empty string are falsy, every other string is truthy.
\<close>

definition truthy :: "string option \<Rightarrow> bool" where
  "truthy v = (case v of None \<Rightarrow> False | Some s \<Rightarrow> s \<noteq> [])"

definition truthy_str :: "string \<Rightarrow> bool" where
  "truthy_str s = (s \<noteq> [])"

subsection \<open>String built-ins\<close>

text \<open>
  \<open>s.split(', ')\<close>: the string is scanned from the left; wherever the separator stands,
  the piece read so far is closed and the scan goes on behind the separator. The result
  always has at least one piece (\<open>''.split(', ')\<close> is \<open>['']\<close>).
\<close>

fun js_split :: "string \<Rightarrow> string list" where
  "js_split [] = [[]]"
| "js_split [c] = [[c]]"
| "js_split (c # d # cs) =
     (if c = CHR '','' \<and> d = CHR '' '' then [] # js_split cs
      else (case js_split (d # cs) of
              p # ps \<Rightarrow> (c # p) # ps
            | [] \<Rightarrow> [[c]]))"

text \<open>\<open>xs.join(', ')\<close>.\<close>

fun js_join :: "string list \<Rightarrow> string" where
  "js_join [] = []"
| "js_join [x] = x"
| "js_join (x # y # ys) = x @ '', '' @ js_join (y # ys)"

text \<open>
  \<open>s.toLowerCase()\<close>. The letters \<open>A\<close> to \<open>Z\<close> are mapped to \<open>a\<close> to \<open>z\<close> and
  every other character is kept. The code only compares the result with the words
  \<open>processing\<close>, \<open>shipped\<close> and \<open>delivered\<close>; no character outside \<open>A\<close> to \<open>Z\<close>
  and \<open>a\<close> to \<open>z\<close> is lowered by JavaScript to a letter of these words alone, so
  the comparison comes out as in JavaScript.
\<close>

definition lower_char :: "char \<Rightarrow> char" where
  "lower_char c =
     (case map_of (zip ''ABCDEFGHIJKLMNOPQRSTUVWXYZ'' ''abcdefghijklmnopqrstuvwxyz'') c of
        Some l \<Rightarrow> l
      | None \<Rightarrow> c)"

definition toLowerCase :: "string \<Rightarrow> string" where
  "toLowerCase s = map lower_char s"

text \<open>
  \<open>s.replace('#', '')\<close> with a string pattern: the first \<open>#\<close> is removed, wherever
  it stands, and later ones are kept.
\<close>

fun replace_hash :: "string \<Rightarrow> string" where
  "replace_hash [] = []"
| "replace_hash (c # cs) = (if c = CHR ''#'' then cs else c # replace_hash cs)"

section \<open>Helper functions\<close>

text \<open>
  \<open>order.tags ? order.tags.split(', ') : []\<close>, as \<open>mapOrderStatus\<close> (file B) and the
  confirm-payment handler (both files) write it.
\<close>

definition tagList :: "string \<Rightarrow> string list" where
  "tagList t = (if truthy_str t then js_split t else [])"

text \<open>\<open>mapOrderStatus(order)\<close> of \<^verbatim>\<open>order-tracking-backend.js\<close>, lines 431 to 461.\<close>

definition mapOrderStatus_B :: "order \<Rightarrow> string" where
  "mapOrderStatus_B order =
     (if truthy (cancelled_at order) then ''cancelled''
      else if fulfillment_status order = Some ''fulfilled'' then ''delivered''
      else if fulfillment_status order = Some ''partial''
              \<or> fulfillment_status order = Some ''shipped'' then ''shipped''
      else if ''payment-confirmed'' \<in> set (tagList (tags order)) then ''processing''
      else if financial_status order = Some ''paid'' then ''confirmed''
      else if financial_status order = Some ''pending''
              \<or> financial_status order = Some ''authorized'' then ''pending_payment''
      else ''pending_payment'')"

text \<open>
  \<open>mapOrderStatus(order, fulfillmentStageMetafield)\<close> of \<^verbatim>\<open>part_000\<close>, lines 582 to
  614. The second argument is the result of \<open>find\<close>: \<open>None\<close> is \<open>undefined\<close>.
  The outer \<open>stage\<close> is what the block of priority 2 returns, \<open>None\<close> when the
  code falls through to priority 3.
\<close>

definition mapOrderStatus_A :: "order \<Rightarrow> metafield option \<Rightarrow> string" where
  "mapOrderStatus_A order fulfillmentStageMetafield =
     (if truthy (cancelled_at order) then ''cancelled''
      else
        (let stage =
           (case fulfillmentStageMetafield of
              None \<Rightarrow> None
            | Some mf \<Rightarrow>
                if truthy_str (mf_value mf) then
                  (let stage = toLowerCase (mf_value mf)
                   in if stage \<in> set [''processing'', ''shipped'', ''delivered'']
                      then Some stage else None)
                else None)
         in case stage of
              Some stage \<Rightarrow> stage
            | None \<Rightarrow>
                if financial_status order = Some ''paid'' then ''confirmed''
                else if financial_status order = Some ''pending''
                        \<or> financial_status order = Some ''authorized''
                        \<or> financial_status order = Some ''partially_paid''
                     then ''pending_payment''
                else ''pending_payment''))"

text \<open>
  \<open>canCancelOrder(order)\<close>, the same text in both files (B: lines 463 to 478, A: lines
  616 to 631). The clock and the date parser are the environment's: \<open>now\<close> is the time
  value of \<open>new Date()\<close> in milliseconds, \<open>dateParse s\<close> is the time value of
  \<open>new Date(s)\<close>, \<open>None\<close> for an invalid date (\<open>NaN\<close>, and \<open>NaN <= 3\<close> is false).

  \<open>now - createdAt\<close> is a whole number of milliseconds. The quotient by 86400000 is
  taken exactly here. JavaScript rounds it to a double; rounding is monotone and keeps 3,
  and the least quotient above 3, \<open>3 + 1/86400000\<close>, stays above the next double after 3,
  so \<open>daysDiff <= 3\<close> comes out the same.
\<close>

definition canCancelOrder :: "(string \<Rightarrow> int option) \<Rightarrow> int \<Rightarrow> order \<Rightarrow> bool" where
  "canCancelOrder dateParse now order =
     (if truthy (cancelled_at order) then False
      else if fulfillment_status order = Some ''fulfilled''
              \<or> fulfillment_status order = Some ''shipped'' then False
      else
        (case dateParse (created_at order) of
           None \<Rightarrow> False
         | Some createdAt \<Rightarrow>
             (let daysDiff = (of_int (now - createdAt) :: rat) / (1000 * 60 * 60 * 24)
              in daysDiff \<le> 3)))"

section \<open>The platform and the environment\<close>

text \<open>
  What a handler sends: the options of \<open>https.request\<close> and what is written to the
  request. A body stands for its \<open>JSON.stringify\<close> text; the three shapes are the
  objects the handlers build, and \<open>GraphqlQuery\<close> is \<open>{ query }\<close>. A GraphQL document
  stands for the template string with the given values spliced in. The
  \<open>Content-Length\<close> header of a GraphQL request is left out: the body fixes it.
\<close>

datatype http_method = GET | POST | PUT

record file_data =
  fd_filename :: string
  fd_mimetype :: string
  fd_size :: nat
  fd_uploadedAt :: string
  fd_data :: string

datatype metafield_value =
    FileId string
  | SlipJson file_data

datatype gql_query =
    StagedUploadsCreate (su_filename: string) (su_mimeType: string)
  | FileCreate (fc_alt: string) (fc_originalSource: string)

datatype body =
    MetafieldData (md_namespace: string) (md_key: string) (md_value: metafield_value)
      (md_type: string)
  | OrderTags (ot_id: string) (ot_tags: string)
  | CancelData (cd_reason: string) (cd_email: bool)
  | GraphqlQuery gql_query

record http_request =
  hostname :: string
  port :: nat
  path :: string
  meth :: http_method
  content_type :: string
  access_token :: string
  written :: "body option"

text \<open>The multipart upload to the staged target (file A, lines 331 to 370).\<close>

record upload_file =
  originalname :: string
  mimetype :: string
  file_size :: nat
  buffer :: string

record upload_request =
  up_hostname :: string
  up_path :: string
  up_fields :: "(string \<times> string) list"
  up_file :: upload_file

datatype call = Shopify http_request | Storage upload_request

text \<open>
  What comes back: the \<open>error\<close> event of the request, or a response with its status
  code and the text of its body.
\<close>

datatype transport = NetworkError string | HttpResponse int string

text \<open>
  A decoded response, by the members the handlers read. \<open>None\<close> is a member that is
  absent or \<open>null\<close>. User errors are held as text.
\<close>

record staged_target =
  url :: string
  resourceUrl :: string
  parameters :: "(string \<times> string) list"

record staged_uploads =
  su_userErrors :: "string list option"
  stagedTargets :: "staged_target list option"

record file_create =
  fc_userErrors :: "string list option"
  files :: "string list option"

record gql_data =
  stagedUploadsCreate :: "staged_uploads option"
  fileCreate :: "file_create option"

record payload =
  orders :: "order list option"
  metafields :: "metafield list option"
  gql :: "gql_data option"

text \<open>A JSON value, for the payment slip that file B parses and hands on.\<close>

datatype json =
    JNull
  | JBool bool
  | JNum int
  | JStr string
  | JArr "json list"
  | JObj "(string \<times> json) list"

text \<open>
  What is thrown or rejected. \<open>TransportError\<close> is the error of the request's
  \<open>error\<close> event; \<open>UpstreamError\<close> is \<open>Error('Shopify API Error: <status> - <body>')\<close>
  (\<open>Shopify GraphQL Error\<close> for GraphQL); \<open>DecodeError\<close> is
  \<open>Error('Failed to parse JSON response ...')\<close> with the status, where the message has
  it, and the body text it quotes. The rest are the errors of the handlers' own code.
\<close>

datatype api = Rest | Graphql

datatype js_error =
    TransportError string
  | UpstreamError api int string
  | DecodeError api "int option" string
  | UploadFailed int string
  | UserErrors "string list"
  | SyntaxError
  | TypeError
  | ReferenceError string

text \<open>
  The environment: the configuration, the network, the clock and the built-ins that are
  not modelled (\<open>JSON.parse\<close> at the two types it is used at, \<open>JSON.stringify\<close> of
  a decoded response, \<open>new URL(s)\<close> as host and path with query, \<open>None\<close> when it
  throws, \<open>Buffer.toString('base64')\<close>, and the number and date formatting of the
  order view, over a type \<open>'n\<close> of numbers).
\<close>

record 'n env =
  shopifyDomain :: string
  accessToken :: string
  net :: "http_request \<Rightarrow> transport"
  storage :: "upload_request \<Rightarrow> transport"
  jsonParse :: "string \<Rightarrow> payload option"
  jsonParseValue :: "string \<Rightarrow> json option"
  jsonStringify :: "payload \<Rightarrow> string"
  newURL :: "string \<Rightarrow> (string \<times> string) option"
  toBase64 :: "string \<Rightarrow> string"
  clock :: int
  clockISO :: string
  dateParse :: "string \<Rightarrow> int option"
  toLocaleDateString :: "string \<Rightarrow> string"
  parseFloat :: "string \<Rightarrow> 'n"
  toFixed2 :: "'n \<Rightarrow> string"

subsection \<open>Asynchronous code with exceptions\<close>

text \<open>
  A piece of handler code either throws or yields a value, and sends requests on the way.
  \<open>await m f\<close> runs \<open>m\<close> and, unless it throws, continues with \<open>f\<close>.
\<close>

type_synonym 'a io = "(js_error + 'a) \<times> call list"

definition yield :: "'a \<Rightarrow> 'a io" where
  "yield a = (Inr a, [])"

definition throw :: "js_error \<Rightarrow> 'a io" where
  "throw e = (Inl e, [])"

definition await :: "'a io \<Rightarrow> ('a \<Rightarrow> 'b io) \<Rightarrow> 'b io" where
  "await m f =
     (case m of
        (Inl e, sent) \<Rightarrow> (Inl e, sent)
      | (Inr a, sent) \<Rightarrow> (case f a of (r, sent') \<Rightarrow> (r, sent @ sent')))"

subsection \<open>Request clients\<close>

text \<open>
  \<open>makeShopifyRequest(endpoint, method, data)\<close> of file B, lines 64 to 104. The body is
  parsed first, inside the \<open>try\<close>; the status is looked at only when parsing succeeded.
\<close>

definition shopifyOptions :: "'n env \<Rightarrow> string \<Rightarrow> http_method \<Rightarrow> body option \<Rightarrow> http_request" where
  "shopifyOptions env endpoint method data =
     \<lparr>hostname = shopifyDomain env, port = 443,
      path = ''/admin/api/2024-01/'' @ endpoint, meth = method,
      content_type = ''application/json'', access_token = accessToken env,
      written = data\<rparr>"

definition makeShopifyRequest_B ::
  "'n env \<Rightarrow> string \<Rightarrow> http_method \<Rightarrow> body option \<Rightarrow> payload io" where
  "makeShopifyRequest_B env endpoint method data =
     (let options = shopifyOptions env endpoint method data
      in (case net env options of
            NetworkError e \<Rightarrow> Inl (TransportError e)
          | HttpResponse statusCode responseBody \<Rightarrow>
              (case jsonParse env responseBody of
                 None \<Rightarrow> Inl (DecodeError Rest None responseBody)
               | Some jsonResponse \<Rightarrow>
                   if statusCode \<ge> 200 \<and> statusCode < 300 then Inr jsonResponse
                   else Inl (UpstreamError Rest statusCode responseBody)),
          [Shopify options]))"

text \<open>
  \<open>makeShopifyRequest\<close> of file A, lines 64 to 107: the same, but the messages quote
  the re-serialised response and the first 200 characters of the body.
\<close>

definition makeShopifyRequest_A ::
  "'n env \<Rightarrow> string \<Rightarrow> http_method \<Rightarrow> body option \<Rightarrow> payload io" where
  "makeShopifyRequest_A env endpoint method data =
     (let options = shopifyOptions env endpoint method data
      in (case net env options of
            NetworkError e \<Rightarrow> Inl (TransportError e)
          | HttpResponse statusCode responseBody \<Rightarrow>
              (case jsonParse env responseBody of
                 None \<Rightarrow> Inl (DecodeError Rest (Some statusCode) (take 200 responseBody))
               | Some jsonResponse \<Rightarrow>
                   if statusCode \<ge> 200 \<and> statusCode < 300 then Inr jsonResponse
                   else Inl (UpstreamError Rest statusCode (jsonStringify env jsonResponse))),
          [Shopify options]))"

text \<open>\<open>makeShopifyGraphQLRequest(query)\<close> of file A, lines 109 to 148.\<close>

definition makeShopifyGraphQLRequest :: "'n env \<Rightarrow> gql_query \<Rightarrow> payload io" where
  "makeShopifyGraphQLRequest env query =
     (let postData = GraphqlQuery query;
          options = \<lparr>hostname = shopifyDomain env, port = 443,
                     path = ''/admin/api/2024-01/graphql.json'', meth = POST,
                     content_type = ''application/json'', access_token = accessToken env,
                     written = Some postData\<rparr>
      in (case net env options of
            NetworkError e \<Rightarrow> Inl (TransportError e)
          | HttpResponse statusCode responseBody \<Rightarrow>
              (case jsonParse env responseBody of
                 None \<Rightarrow> Inl (DecodeError Graphql None (take 200 responseBody))
               | Some jsonResponse \<Rightarrow>
                   if statusCode \<ge> 200 \<and> statusCode < 300 then Inr jsonResponse
                   else Inl (UpstreamError Graphql statusCode (jsonStringify env jsonResponse))),
          [Shopify options]))"

section \<open>Responses\<close>

text \<open>
  The fixed user-facing texts are Arabic string literals in the source; each is named
  here by what it says.
  \<^item> \<open>MsgOrderNotFound\<close>: the order was not found (404, all handlers);
  \<^item> \<open>MsgErrorFetchingOrder\<close>: an error occurred while fetching the order data;
  \<^item> \<open>MsgNoFileUploaded\<close>: no file was uploaded;
  \<^item> \<open>MsgSlipUploaded\<close>: the payment slip was uploaded;
  \<^item> \<open>MsgErrorUploadingFile\<close>: an error occurred while uploading the file;
  \<^item> \<open>MsgPaymentConfirmed\<close>, \<open>MsgErrorConfirmingPayment\<close>: payment confirmed, or an
    error occurred while confirming it;
  \<^item> \<open>MsgCannotCancelAfter3Days\<close>: the order cannot be cancelled after 3 days;
  \<^item> \<open>MsgOrderCancelled\<close>, \<open>MsgErrorCancellingOrder\<close>: order cancelled, or an error
    occurred while cancelling it.
\<close>

datatype message =
    MsgOrderNotFound
  | MsgErrorFetchingOrder
  | MsgNoFileUploaded
  | MsgSlipUploaded
  | MsgErrorUploadingFile
  | MsgPaymentConfirmed
  | MsgErrorConfirmingPayment
  | MsgCannotCancelAfter3Days
  | MsgOrderCancelled
  | MsgErrorCancellingOrder

record file_echo =
  echo_name :: string
  echo_size :: nat
  echo_uploadedAt :: string

text \<open>
  The JSON a handler sends: \<open>{success: false, error}\<close>, \<open>{success: true, order}\<close>,
  \<open>{success: true, message}\<close> or \<open>{success: true, message, file}\<close>; with the status
  code, 200 where the code calls \<open>res.json\<close> alone.
\<close>

datatype 'v reply =
    Failure message
  | OrderFound 'v
  | Success message
  | SlipUploaded message file_echo

type_synonym 'v response = "nat \<times> 'v reply"

text \<open>
  \<open>try { ... } catch (error) { res.status(500).json(...) }\<close>: what the block sends, or
  the handler's fixed failure when the block throws.
\<close>

definition try_catch :: "'v response io \<Rightarrow> 'v response \<Rightarrow> 'v response \<times> call list" where
  "try_catch block on_error =
     (case block of
        (Inl e, sent) \<Rightarrow> (on_error, sent)
      | (Inr r, sent) \<Rightarrow> (r, sent))"

text \<open>\<open>a || b\<close> where \<open>a\<close> is \<open>null\<close>, \<open>undefined\<close> or a string.\<close>

definition or_else :: "string option \<Rightarrow> string \<Rightarrow> string" where
  "or_else a b = (case a of None \<Rightarrow> b | Some s \<Rightarrow> if s \<noteq> [] then s else b)"

definition or_opt :: "string option \<Rightarrow> string option \<Rightarrow> string option" where
  "or_opt a b = (if truthy a then a else b)"

text \<open>
  \<open>metafields?.find(mf => mf.namespace === 'custom' && mf.key === k)\<close>;
  \<open>None\<close> is \<open>undefined\<close>.
\<close>

definition findMetafield :: "payload \<Rightarrow> string \<Rightarrow> metafield option" where
  "findMetafield metafieldsResponse k =
     (case metafields metafieldsResponse of
        None \<Rightarrow> None
      | Some mfs \<Rightarrow> find (\<lambda>mf. namespace mf = ''custom'' \<and> mf_key mf = k) mfs)"

section \<open>Order lookup\<close>

record 'n view_item =
  vi_id :: string
  vi_name :: string
  vi_variant :: string
  vi_quantity :: int
  vi_price :: string
  vi_priceAmount :: 'n
  vi_image :: string
  vi_sku :: "string option"

record ('n, 's) order_view =
  v_id :: string
  v_number :: string
  v_date :: string
  v_createdAt :: string
  v_status :: string
  v_email :: "string option"
  v_phone :: "string option"
  v_items :: "'n view_item list"
  v_subtotal :: string
  v_shipping :: string
  v_tax :: string
  v_total :: string
  v_currency :: string
  v_subtotalAmount :: 'n
  v_shippingAmount :: 'n
  v_taxAmount :: 'n
  v_totalAmount :: 'n
  v_financialStatus :: "string option"
  v_fulfillmentStatus :: "string option"
  v_cancelled :: bool
  v_cancelledAt :: "string option"
  v_paymentSlip :: "'s option"
  v_canCancel :: bool

text \<open>
  The object \<open>orderData\<close> (B: lines 155 to 200, A: lines 204 to 252). The two files
  differ in \<open>status\<close> and \<open>paymentSlip\<close>, which are arguments here. A price is
  \<open>parseFloat(amount).toFixed(2)\<close>, a blank and the currency; a missing shipping
  amount is \<open>0\<close>, which \<open>parseFloat\<close> reads as the text \<open>0\<close>.
\<close>

definition money :: "'n env \<Rightarrow> string \<Rightarrow> string \<Rightarrow> string" where
  "money env amount cur = toFixed2 env (parseFloat env amount) @ '' '' @ cur"

definition itemData :: "'n env \<Rightarrow> order \<Rightarrow> line_item \<Rightarrow> 'n view_item" where
  "itemData env order item =
     \<lparr>vi_id = item_id item,
      vi_name = item_name item,
      vi_variant = or_else (variant_title item) [],
      vi_quantity = quantity item,
      vi_price = money env (price item) (currency order),
      vi_priceAmount = parseFloat env (price item),
      vi_image = or_else (image_url item)
                   (or_else (product_image item) ''https://via.placeholder.com/80''),
      vi_sku = sku item\<rparr>"

definition orderData ::
  "'n env \<Rightarrow> order \<Rightarrow> string \<Rightarrow> 's option \<Rightarrow> ('n, 's) order_view" where
  "orderData env order status paymentSlip =
     \<lparr>v_id = order_id order,
      v_number = order_name order,
      v_date = toLocaleDateString env (created_at order),
      v_createdAt = created_at order,
      v_status = status,
      v_email = email order,
      v_phone = or_opt (phone order) (customer_phone order),
      v_items = map (itemData env order) (line_items order),
      v_subtotal = money env (subtotal_price order) (currency order),
      v_shipping = money env (or_else (shipping_amount order) ''0'') (currency order),
      v_tax = money env (total_tax order) (currency order),
      v_total = money env (total_price order) (currency order),
      v_currency = currency order,
      v_subtotalAmount = parseFloat env (subtotal_price order),
      v_shippingAmount = parseFloat env (or_else (shipping_amount order) ''0''),
      v_taxAmount = parseFloat env (total_tax order),
      v_totalAmount = parseFloat env (total_price order),
      v_financialStatus = financial_status order,
      v_fulfillmentStatus = fulfillment_status order,
      v_cancelled = (cancelled_at order \<noteq> None),
      v_cancelledAt = cancelled_at order,
      v_paymentSlip = paymentSlip,
      v_canCancel = canCancelOrder (dateParse env) (clock env) order\<rparr>"

text \<open>The path of the order search, as every handler builds it.\<close>

definition ordersQuery :: "string \<Rightarrow> string" where
  "ordersQuery cleanOrderNumber = ''orders.json?name='' @ cleanOrderNumber @ ''&status=any''"

text \<open>
  \<open>GET /api/order/:orderNumber\<close> of file B, lines 120 to 214. The payment slip is
  \<open>JSON.parse(paymentSlipMetafield.value)\<close>, which throws on text that is not JSON.
\<close>

definition getOrder_B :: "'n env \<Rightarrow> string \<Rightarrow> ('n, json) order_view response \<times> call list" where
  "getOrder_B env orderNumber =
     try_catch
       (let cleanOrderNumber = replace_hash orderNumber
        in await (makeShopifyRequest_B env (ordersQuery cleanOrderNumber) GET None)
             (\<lambda>ordersResponse.
                case orders ordersResponse of
                  None \<Rightarrow> yield (404, Failure MsgOrderNotFound)
                | Some [] \<Rightarrow> yield (404, Failure MsgOrderNotFound)
                | Some (order # _) \<Rightarrow>
                    await (makeShopifyRequest_B env
                             (''orders/'' @ order_id order @ ''/metafields.json'') GET None)
                      (\<lambda>metafieldsResponse.
                         let paymentSlipMetafield =
                               findMetafield metafieldsResponse ''payment_slip''
                         in await
                              (case paymentSlipMetafield of
                                 None \<Rightarrow> yield None
                               | Some mf \<Rightarrow>
                                   (case jsonParseValue env (mf_value mf) of
                                      None \<Rightarrow> throw SyntaxError
                                    | Some slip \<Rightarrow> yield (Some slip)))
                              (\<lambda>paymentSlip.
                                 yield (200, OrderFound
                                   (orderData env order (mapOrderStatus_B order)
                                      paymentSlip))))))
       (500, Failure MsgErrorFetchingOrder)"

text \<open>
  The same handler in file A, lines 164 to 266: the status reads the
  \<open>fulfillment_stage\<close> metafield, and the payment slip is
  \<open>{fileId: paymentSlipMetafield.value, uploaded: true}\<close>.
\<close>

record slip_ref =
  fileId :: string
  uploaded :: bool

definition getOrder_A ::
  "'n env \<Rightarrow> string \<Rightarrow> ('n, slip_ref) order_view response \<times> call list" where
  "getOrder_A env orderNumber =
     try_catch
       (let cleanOrderNumber = replace_hash orderNumber
        in await (makeShopifyRequest_A env (ordersQuery cleanOrderNumber) GET None)
             (\<lambda>ordersResponse.
                case orders ordersResponse of
                  None \<Rightarrow> yield (404, Failure MsgOrderNotFound)
                | Some [] \<Rightarrow> yield (404, Failure MsgOrderNotFound)
                | Some (order # _) \<Rightarrow>
                    await (makeShopifyRequest_A env
                             (''orders/'' @ order_id order @ ''/metafields.json'') GET None)
                      (\<lambda>metafieldsResponse.
                         let paymentSlipMetafield =
                               findMetafield metafieldsResponse ''payment_slip'';
                             fulfillmentStageMetafield =
                               findMetafield metafieldsResponse ''fulfillment_stage''
                         in yield (200, OrderFound
                              (orderData env order
                                 (mapOrderStatus_A order fulfillmentStageMetafield)
                                 (case paymentSlipMetafield of
                                    None \<Rightarrow> None
                                  | Some mf \<Rightarrow>
                                      Some \<lparr>fileId = mf_value mf, uploaded = True\<rparr>))))))
       (500, Failure MsgErrorFetchingOrder)"

section \<open>Payment slip upload\<close>

text \<open>
  \<open>POST /api/order/:orderNumber/upload-payment\<close> of file B, lines 217 to 317.
  \<open>file\<close> is \<open>req.file\<close>, \<open>None\<close> when no file came with the request. The
  metafield's value is \<open>JSON.stringify(fileData)\<close>. The object \<open>noteData\<close> is built
  and never used; it is left out.
\<close>

definition uploadPayment_B ::
  "'n env \<Rightarrow> string \<Rightarrow> upload_file option \<Rightarrow> unit response \<times> call list" where
  "uploadPayment_B env orderNumber file =
     try_catch
       (case file of
          None \<Rightarrow> yield (400, Failure MsgNoFileUploaded)
        | Some file \<Rightarrow>
            (let cleanOrderNumber = replace_hash orderNumber
             in await (makeShopifyRequest_B env (ordersQuery cleanOrderNumber) GET None)
                  (\<lambda>ordersResponse.
                     case orders ordersResponse of
                       None \<Rightarrow> yield (404, Failure MsgOrderNotFound)
                     | Some [] \<Rightarrow> yield (404, Failure MsgOrderNotFound)
                     | Some (order # _) \<Rightarrow>
                         (let fileBase64 = toBase64 env (buffer file);
                              fileData = \<lparr>fd_filename = originalname file,
                                          fd_mimetype = mimetype file,
                                          fd_size = file_size file,
                                          fd_uploadedAt = clockISO env,
                                          fd_data = fileBase64\<rparr>;
                              metafieldData =
                                MetafieldData ''custom'' ''payment_slip'' (SlipJson fileData)
                                  ''json''
                          in await (makeShopifyRequest_B env
                                      (''orders/'' @ order_id order @ ''/metafields.json'')
                                      GET None)
                               (\<lambda>metafieldsResponse.
                                  let existingMetafield =
                                        findMetafield metafieldsResponse ''payment_slip''
                                  in await
                                       (case existingMetafield of
                                          Some mf \<Rightarrow>
                                            makeShopifyRequest_B env
                                              (''orders/'' @ order_id order
                                                 @ ''/metafields/'' @ mf_id mf @ ''.json'')
                                              PUT (Some metafieldData)
                                        | None \<Rightarrow>
                                            makeShopifyRequest_B env
                                              (''orders/'' @ order_id order
                                                 @ ''/metafields.json'')
                                              POST (Some metafieldData))
                                       (\<lambda>_. yield (200, SlipUploaded MsgSlipUploaded
                                                \<lparr>echo_name = originalname file,
                                                 echo_size = file_size file,
                                                 echo_uploadedAt =
                                                   fd_uploadedAt fileData\<rparr>)))))))
       (500, Failure MsgErrorUploadingFile)"

text \<open>
  The pieces of the same handler in file A, lines 269 to 468.
  \<open>stagedUserErrors\<close> is \<open>data?.stagedUploadsCreate?.userErrors\<close> and
  \<open>fileUserErrors\<close> is \<open>data?.fileCreate?.userErrors\<close> (\<open>None\<close> is
  \<open>undefined\<close>, and \<open>undefined > 0\<close> is false). \<open>firstStagedTarget\<close> is
  \<open>data.stagedUploadsCreate.stagedTargets[0]\<close> together with the read of its
  \<open>url\<close> in the next line, and \<open>firstFile\<close> is \<open>data.fileCreate.files[0]\<close> with
  the read of its \<open>id\<close>: \<open>None\<close> where one of them throws a \<open>TypeError\<close>. A
  created file is held as its \<open>id\<close>.
\<close>

definition stagedUserErrors :: "payload \<Rightarrow> string list option" where
  "stagedUserErrors r =
     (case gql r of
        None \<Rightarrow> None
      | Some d \<Rightarrow> (case stagedUploadsCreate d of None \<Rightarrow> None | Some su \<Rightarrow> su_userErrors su))"

definition firstStagedTarget :: "payload \<Rightarrow> staged_target option" where
  "firstStagedTarget r =
     (case gql r of
        None \<Rightarrow> None
      | Some d \<Rightarrow>
          (case stagedUploadsCreate d of
             None \<Rightarrow> None
           | Some su \<Rightarrow>
               (case stagedTargets su of
                  None \<Rightarrow> None
                | Some [] \<Rightarrow> None
                | Some (stagedTarget # _) \<Rightarrow> Some stagedTarget)))"

definition fileUserErrors :: "payload \<Rightarrow> string list option" where
  "fileUserErrors r =
     (case gql r of
        None \<Rightarrow> None
      | Some d \<Rightarrow> (case fileCreate d of None \<Rightarrow> None | Some fc \<Rightarrow> fc_userErrors fc))"

definition firstFile :: "payload \<Rightarrow> string option" where
  "firstFile r =
     (case gql r of
        None \<Rightarrow> None
      | Some d \<Rightarrow>
          (case fileCreate d of
             None \<Rightarrow> None
           | Some fc \<Rightarrow>
               (case files fc of
                  None \<Rightarrow> None
                | Some [] \<Rightarrow> None
                | Some (uploadedFile # _) \<Rightarrow> Some uploadedFile)))"

definition hasErrors :: "string list option \<Rightarrow> bool" where
  "hasErrors userErrors = (case userErrors of None \<Rightarrow> False | Some es \<Rightarrow> length es > 0)"

text \<open>The promise around the upload to the staged target (lines 349 to 370).\<close>

definition uploadToStorage :: "'n env \<Rightarrow> upload_request \<Rightarrow> unit io" where
  "uploadToStorage env request =
     (case storage env request of
        NetworkError e \<Rightarrow> Inl (TransportError e)
      | HttpResponse statusCode received \<Rightarrow>
          if statusCode \<ge> 200 \<and> statusCode < 300 then Inr ()
          else Inl (UploadFailed statusCode received),
      [Storage request])"

text \<open>
  The handler of file A. Its last statement builds the response from
  \<open>fileData.uploadedAt\<close>; file A declares no \<open>fileData\<close>, so evaluating the
  argument of \<open>res.json\<close> throws a \<open>ReferenceError\<close> inside the \<open>try\<close>.
\<close>

definition uploadPayment_A ::
  "'n env \<Rightarrow> string \<Rightarrow> upload_file option \<Rightarrow> unit response \<times> call list" where
  "uploadPayment_A env orderNumber file =
     try_catch
       (case file of
          None \<Rightarrow> yield (400, Failure MsgNoFileUploaded)
        | Some file \<Rightarrow>
            (let cleanOrderNumber = replace_hash orderNumber
             in await (makeShopifyRequest_A env (ordersQuery cleanOrderNumber) GET None)
       (\<lambda>ordersResponse.
          case orders ordersResponse of
            None \<Rightarrow> yield (404, Failure MsgOrderNotFound)
          | Some [] \<Rightarrow> yield (404, Failure MsgOrderNotFound)
          | Some (order # _) \<Rightarrow>
        await (makeShopifyGraphQLRequest env
                 (StagedUploadsCreate (originalname file) (mimetype file)))
       (\<lambda>stagedUploadResponse.
          if hasErrors (stagedUserErrors stagedUploadResponse)
          then throw (UserErrors (the (stagedUserErrors stagedUploadResponse)))
          else
            (case firstStagedTarget stagedUploadResponse of
               None \<Rightarrow> throw TypeError
             | Some stagedTarget \<Rightarrow>
                 (case newURL env (url stagedTarget) of
                    None \<Rightarrow> throw TypeError
                  | Some (uploadHost, uploadPath) \<Rightarrow>
        await (uploadToStorage env
                 \<lparr>up_hostname = uploadHost, up_path = uploadPath,
                  up_fields = parameters stagedTarget, up_file = file\<rparr>)
       (\<lambda>_.
        await (makeShopifyGraphQLRequest env
                 (FileCreate (''Payment slip for order '' @ order_name order)
                    (resourceUrl stagedTarget)))
       (\<lambda>fileCreateResponse.
          if hasErrors (fileUserErrors fileCreateResponse)
          then throw (UserErrors (the (fileUserErrors fileCreateResponse)))
          else
            (case firstFile fileCreateResponse of
               None \<Rightarrow> throw TypeError
             | Some uploadedFile \<Rightarrow>
                 (let metafieldData =
                        MetafieldData ''custom'' ''payment_slip'' (FileId uploadedFile)
                          ''file_reference''
                  in
        await (makeShopifyRequest_A env
                 (''orders/'' @ order_id order @ ''/metafields.json'') GET None)
       (\<lambda>metafieldsResponse.
          let existingMetafield = findMetafield metafieldsResponse ''payment_slip''
          in
        await (case existingMetafield of
                 Some mf \<Rightarrow>
                   makeShopifyRequest_A env
                     (''orders/'' @ order_id order @ ''/metafields/'' @ mf_id mf @ ''.json'')
                     PUT (Some metafieldData)
               | None \<Rightarrow>
                   makeShopifyRequest_A env
                     (''orders/'' @ order_id order @ ''/metafields.json'')
                     POST (Some metafieldData))
       (\<lambda>_.
        await (throw (ReferenceError ''fileData''))
       (\<lambda>uploadedAt.
          yield (200, SlipUploaded MsgSlipUploaded
                   \<lparr>echo_name = originalname file,
                    echo_size = file_size file,
                    echo_uploadedAt = uploadedAt\<rparr>))))))))))))))
       (500, Failure MsgErrorUploadingFile)"

section \<open>Payment confirmation\<close>

text \<open>
  The tag update of the confirm-payment handler (B: lines 339 to 343, A: lines 490 to
  494): split the tags, push \<open>payment-confirmed\<close> unless the list includes it.
\<close>

definition confirmedTags :: "string \<Rightarrow> string list" where
  "confirmedTags t =
     (let tags = tagList t
      in if ''payment-confirmed'' \<notin> set tags then tags @ [''payment-confirmed''] else tags)"

text \<open>
  \<open>POST /api/order/:orderNumber/confirm-payment\<close>, the same text in both files (B:
  lines 320 to 370, A: lines 471 to 521); the argument is the file's
  \<open>makeShopifyRequest\<close>.
\<close>

definition confirmPayment ::
  "(string \<Rightarrow> http_method \<Rightarrow> body option \<Rightarrow> payload io) \<Rightarrow> string
     \<Rightarrow> unit response \<times> call list" where
  "confirmPayment makeShopifyRequest orderNumber =
     try_catch
       (let cleanOrderNumber = replace_hash orderNumber
        in await (makeShopifyRequest (ordersQuery cleanOrderNumber) GET None)
             (\<lambda>ordersResponse.
                case orders ordersResponse of
                  None \<Rightarrow> yield (404, Failure MsgOrderNotFound)
                | Some [] \<Rightarrow> yield (404, Failure MsgOrderNotFound)
                | Some (order # _) \<Rightarrow>
                    (let tags = confirmedTags (tags order)
                     in await (makeShopifyRequest (''orders/'' @ order_id order @ ''.json'')
                                 PUT (Some (OrderTags (order_id order) (js_join tags))))
                          (\<lambda>_. yield (200, Success MsgPaymentConfirmed)))))
       (500, Failure MsgErrorConfirmingPayment)"

definition confirmPayment_A :: "'n env \<Rightarrow> string \<Rightarrow> unit response \<times> call list" where
  "confirmPayment_A env = confirmPayment (makeShopifyRequest_A env)"

definition confirmPayment_B :: "'n env \<Rightarrow> string \<Rightarrow> unit response \<times> call list" where
  "confirmPayment_B env = confirmPayment (makeShopifyRequest_B env)"

section \<open>Order cancellation\<close>

text \<open>
  \<open>POST /api/order/:orderNumber/cancel\<close>, the same text in both files (B: lines 373
  to 425, A: lines 524 to 576). \<open>reason\<close> is \<open>req.body.reason\<close>, \<open>None\<close> when the
  body has none.
\<close>

definition cancelOrder ::
  "(string \<Rightarrow> http_method \<Rightarrow> body option \<Rightarrow> payload io) \<Rightarrow> 'n env \<Rightarrow> string
     \<Rightarrow> string option \<Rightarrow> unit response \<times> call list" where
  "cancelOrder makeShopifyRequest env orderNumber reason =
     try_catch
       (let cleanOrderNumber = replace_hash orderNumber
        in await (makeShopifyRequest (ordersQuery cleanOrderNumber) GET None)
             (\<lambda>ordersResponse.
                case orders ordersResponse of
                  None \<Rightarrow> yield (404, Failure MsgOrderNotFound)
                | Some [] \<Rightarrow> yield (404, Failure MsgOrderNotFound)
                | Some (order # _) \<Rightarrow>
                    if \<not> canCancelOrder (dateParse env) (clock env) order
                    then yield (400, Failure MsgCannotCancelAfter3Days)
                    else await (makeShopifyRequest
                                  (''orders/'' @ order_id order @ ''/cancel.json'') POST
                                  (Some (CancelData (or_else reason ''customer'') True)))
                           (\<lambda>_. yield (200, Success MsgOrderCancelled))))
       (500, Failure MsgErrorCancellingOrder)"

definition cancelOrder_A :: "'n env \<Rightarrow> string \<Rightarrow> string option \<Rightarrow> unit response \<times> call list" where
  "cancelOrder_A env = cancelOrder (makeShopifyRequest_A env) env"

definition cancelOrder_B :: "'n env \<Rightarrow> string \<Rightarrow> string option \<Rightarrow> unit response \<times> call list" where
  "cancelOrder_B env = cancelOrder (makeShopifyRequest_B env) env"

section \<open>The located order\<close>

text \<open>
  Every handler goes on with \<open>ordersResponse.orders[0]\<close> when the order search
  resolved and \<open>orders\<close> is a non-empty list, and answers 404 or 500 otherwise.
  \<open>firstOrder\<close> names that order for the statements below.
\<close>

definition firstOrder :: "payload io \<Rightarrow> order option" where
  "firstOrder search =
     (case fst search of
        Inl e \<Rightarrow> None
      | Inr ordersResponse \<Rightarrow>
          (case orders ordersResponse of
             None \<Rightarrow> None
           | Some [] \<Rightarrow> None
           | Some (order # _) \<Rightarrow> Some order))"

section \<open>A sample environment\<close>

text \<open>
  A small world to run the handlers in: one order, \<open>#1006\<close>, created on 1 March 2024
  at 10:00 UTC, with a payment slip metafield that holds a file id; every request
  succeeds. The response bodies are short stand-ins that \<open>sample_parse\<close> decodes. The
  clock stands one day after the order was created.
\<close>

definition sample_order :: order where
  "sample_order =
     \<lparr>order_id = ''5001'', order_name = ''#1006'', created_at = ''2024-03-01T10:00:00Z'',
      cancelled_at = None, financial_status = Some ''pending'', fulfillment_status = None,
      tags = ''vip, wholesale'', email = Some ''buyer@example.com'', phone = None,
      customer_phone = None, currency = ''SAR'', subtotal_price = ''100.00'',
      total_tax = ''15.00'', total_price = ''115.00'', shipping_amount = None,
      line_items = []\<rparr>"

definition sample_slip :: metafield where
  "sample_slip =
     \<lparr>mf_id = ''77'', namespace = ''custom'', mf_key = ''payment_slip'',
      mf_value = ''gid://shopify/MediaImage/1''\<rparr>"

definition sample_target :: staged_target where
  "sample_target =
     \<lparr>url = ''https://storage.example/upload?x=1'',
      resourceUrl = ''https://storage.example/tmp/slip.png'',
      parameters = [(''policy'', ''p1'')]\<rparr>"

definition sample_parse :: "string \<Rightarrow> payload option" where
  "sample_parse received =
     (if received = ''ORDERS''
      then Some \<lparr>orders = Some [sample_order], metafields = None, gql = None\<rparr>
      else if received = ''METAFIELDS''
      then Some \<lparr>orders = None, metafields = Some [sample_slip], gql = None\<rparr>
      else if received = ''STAGED''
      then Some \<lparr>orders = None, metafields = None,
                 gql = Some \<lparr>stagedUploadsCreate =
                               Some \<lparr>su_userErrors = Some [],
                                      stagedTargets = Some [sample_target]\<rparr>,
                             fileCreate = None\<rparr>\<rparr>
      else if received = ''FILE''
      then Some \<lparr>orders = None, metafields = None,
                 gql = Some \<lparr>stagedUploadsCreate = None,
                             fileCreate =
                               Some \<lparr>fc_userErrors = Some [],
                                      files = Some [''gid://shopify/MediaImage/2'']\<rparr>\<rparr>\<rparr>
      else if received = ''{}''
      then Some \<lparr>orders = None, metafields = None, gql = None\<rparr>
      else None)"

definition sample_net :: "http_request \<Rightarrow> transport" where
  "sample_net request =
     (if path request = ''/admin/api/2024-01/orders.json?name=1006&status=any''
      then HttpResponse 200 ''ORDERS''
      else if path request = ''/admin/api/2024-01/orders/5001/metafields.json''
              \<and> meth request = GET
      then HttpResponse 200 ''METAFIELDS''
      else (case written request of
              Some (GraphqlQuery (StagedUploadsCreate _ _)) \<Rightarrow> HttpResponse 200 ''STAGED''
            | Some (GraphqlQuery (FileCreate _ _)) \<Rightarrow> HttpResponse 200 ''FILE''
            | _ \<Rightarrow> HttpResponse 200 ''{}''))"

definition sample_env :: "string env" where
  "sample_env =
     \<lparr>shopifyDomain = ''shop.example'', accessToken = ''token'',
      net = sample_net,
      storage = (\<lambda>_. HttpResponse 201 []),
      jsonParse = sample_parse,
      jsonParseValue = (\<lambda>_. None),
      jsonStringify = (\<lambda>_. ''{}''),
      newURL = (\<lambda>_. Some (''storage.example'', ''/upload?x=1'')),
      toBase64 = (\<lambda>_. ''YWJj''),
      clock = 1709373600000,
      clockISO = ''2024-03-02T10:00:00.000Z'',
      dateParse = (\<lambda>s. if s = ''2024-03-01T10:00:00Z'' then Some 1709287200000 else None),
      toLocaleDateString = (\<lambda>s. s),
      parseFloat = (\<lambda>s. s),
      toFixed2 = (\<lambda>n. n)\<rparr>"

definition sample_file :: upload_file where
  "sample_file =
     \<lparr>originalname = ''slip.png'', mimetype = ''image/png'', file_size = 3,
      buffer = ''abc''\<rparr>"

section \<open>Status derivation and cancellability\<close>

text \<open>
  Claim C1. An order whose \<open>cancelled_at\<close> holds a timestamp (a timestamp is a string
  such as \<open>2024-03-02T08:00:00Z\<close>, never the empty one) has the status \<open>cancelled\<close>
  in both files, whatever its financial status, fulfillment status, tags and
  \<open>fulfillment_stage\<close> metafield are.
\<close>

theorem cancelled_status:
  assumes "cancelled_at order = Some ts" and "ts \<noteq> []"
  shows "mapOrderStatus_B order = ''cancelled''
         \<and> mapOrderStatus_A order fulfillmentStageMetafield = ''cancelled''"
  using assms by (simp add: mapOrderStatus_B_def mapOrderStatus_A_def truthy_def)

theorem cancelled_status_witness:
  "mapOrderStatus_B
     (sample_order\<lparr>cancelled_at := Some ''2024-03-02T08:00:00Z'',
                    financial_status := Some ''paid'',
                    fulfillment_status := Some ''fulfilled'',
                    tags := ''payment-confirmed''\<rparr>) = ''cancelled''
   \<and> mapOrderStatus_A
       (sample_order\<lparr>cancelled_at := Some ''2024-03-02T08:00:00Z'',
                      financial_status := Some ''paid'',
                      fulfillment_status := Some ''fulfilled'',
                      tags := ''payment-confirmed''\<rparr>)
       (Some (sample_slip\<lparr>mf_key := ''fulfillment_stage'', mf_value := ''shipped''\<rparr>))
     = ''cancelled''"
  using cancelled_status
    [of "sample_order\<lparr>cancelled_at := Some ''2024-03-02T08:00:00Z'',
                    financial_status := Some ''paid'',
                    fulfillment_status := Some ''fulfilled'',
                    tags := ''payment-confirmed''\<rparr>" "''2024-03-02T08:00:00Z''"
        "Some (sample_slip\<lparr>mf_key := ''fulfillment_stage'', mf_value := ''shipped''\<rparr>)"]
  by simp

text \<open>
  Claim C2. \<open>canCancelOrder\<close> is false for an order that has a cancellation timestamp;
  it is false for an order whose fulfillment status is \<open>fulfilled\<close> or \<open>shipped\<close>,
  whatever its age; for every other order with a readable creation date it is true
  exactly when \<open>now - createdAt\<close> is at most three days (259200000 milliseconds): true
  at exactly three days, false one millisecond later.
\<close>

theorem canCancel_rule:
  "(cancelled_at order = Some ts \<and> ts \<noteq> [] \<longrightarrow> \<not> canCancelOrder parse now order)
   \<and> (fulfillment_status order = Some ''fulfilled'' \<or> fulfillment_status order = Some ''shipped''
        \<longrightarrow> \<not> canCancelOrder parse now order)
   \<and> (cancelled_at order = None
        \<and> fulfillment_status order \<noteq> Some ''fulfilled''
        \<and> fulfillment_status order \<noteq> Some ''shipped''
        \<and> parse (created_at order) = Some createdAt
        \<longrightarrow> canCancelOrder parse now order = (now - createdAt \<le> 3 * 86400000))"
  by (simp add: canCancelOrder_def truthy_def Let_def divide_le_eq flip: of_int_diff)

theorem canCancel_rule_witness:
  "\<not> canCancelOrder (dateParse sample_env) 1709287200000
       (sample_order\<lparr>cancelled_at := Some ''2024-03-01T10:00:00Z''\<rparr>)
   \<and> \<not> canCancelOrder (dateParse sample_env) 1709287200000
       (sample_order\<lparr>fulfillment_status := Some ''shipped''\<rparr>)
   \<and> canCancelOrder (dateParse sample_env) (1709287200000 + 259200000) sample_order
   \<and> \<not> canCancelOrder (dateParse sample_env) (1709287200000 + 259200001) sample_order"
  using canCancel_rule
     [where order = "sample_order\<lparr>cancelled_at := Some ''2024-03-01T10:00:00Z''\<rparr>"
        and ts = "''2024-03-01T10:00:00Z''" and parse = "dateParse sample_env"
        and now = 1709287200000 and createdAt = 1709287200000]
    canCancel_rule
     [where order = "sample_order\<lparr>fulfillment_status := Some ''shipped''\<rparr>"
        and ts = "[]" and parse = "dateParse sample_env"
        and now = 1709287200000 and createdAt = 1709287200000]
    canCancel_rule
     [where order = sample_order and ts = "[]" and parse = "dateParse sample_env"
        and now = "1709287200000 + 259200000" and createdAt = 1709287200000]
    canCancel_rule
     [where order = sample_order and ts = "[]" and parse = "dateParse sample_env"
        and now = "1709287200000 + 259200001" and createdAt = 1709287200000]
  by (simp add: sample_order_def sample_env_def)

text \<open>
  Claim C3. Take an order with no cancellation timestamp on which no rule of higher
  priority fires: in file A the \<open>fulfillment_stage\<close> metafield is missing or its value,
  in lower case, is none of \<open>processing\<close>, \<open>shipped\<close>, \<open>delivered\<close>; in file B the
  fulfillment status is none of \<open>fulfilled\<close>, \<open>partial\<close>, \<open>shipped\<close> and the tags do
  not include \<open>payment-confirmed\<close>. Then the status is \<open>confirmed\<close> when the financial
  status is \<open>paid\<close>, and \<open>pending_payment\<close> for every other financial status,
  \<open>pending\<close>, \<open>authorized\<close> and \<open>partially_paid\<close> among them.
\<close>

theorem status_by_financial_status:
  assumes "cancelled_at order = None"
  shows "((\<forall>mf. fulfillmentStageMetafield = Some mf \<longrightarrow>
             toLowerCase (mf_value mf) \<notin> {''processing'', ''shipped'', ''delivered''})
          \<longrightarrow> mapOrderStatus_A order fulfillmentStageMetafield =
                (if financial_status order = Some ''paid'' then ''confirmed''
                 else ''pending_payment''))
       \<and> (fulfillment_status order \<notin> {Some ''fulfilled'', Some ''partial'', Some ''shipped''}
            \<and> ''payment-confirmed'' \<notin> set (tagList (tags order))
          \<longrightarrow> mapOrderStatus_B order =
                (if financial_status order = Some ''paid'' then ''confirmed''
                 else ''pending_payment''))"
  using assms
  by (auto simp add: mapOrderStatus_B_def mapOrderStatus_A_def truthy_def Let_def
      split: option.splits)

theorem status_by_financial_status_witness:
  "mapOrderStatus_A (sample_order\<lparr>financial_status := Some ''paid''\<rparr>) None = ''confirmed''
   \<and> mapOrderStatus_A (sample_order\<lparr>financial_status := Some ''partially_paid''\<rparr>)
        (Some (sample_slip\<lparr>mf_value := ''Returned''\<rparr>)) = ''pending_payment''
   \<and> mapOrderStatus_A (sample_order\<lparr>financial_status := Some ''refunded''\<rparr>) None
        = ''pending_payment''
   \<and> mapOrderStatus_B (sample_order\<lparr>financial_status := Some ''paid''\<rparr>) = ''confirmed''
   \<and> mapOrderStatus_B (sample_order\<lparr>financial_status := Some ''partially_paid''\<rparr>)
        = ''pending_payment''
   \<and> mapOrderStatus_B (sample_order\<lparr>financial_status := Some ''voided''\<rparr>)
        = ''pending_payment''"
  using status_by_financial_status
     [of "sample_order\<lparr>financial_status := Some ''paid''\<rparr>" None]
    status_by_financial_status
     [of "sample_order\<lparr>financial_status := Some ''partially_paid''\<rparr>"
         "Some (sample_slip\<lparr>mf_value := ''Returned''\<rparr>)"]
    status_by_financial_status
     [of "sample_order\<lparr>financial_status := Some ''refunded''\<rparr>" None]
    status_by_financial_status
     [of "sample_order\<lparr>financial_status := Some ''voided''\<rparr>" None]
  by (simp add: sample_order_def sample_slip_def tagList_def truthy_str_def
      toLowerCase_def lower_char_def)

section \<open>Splitting and joining tags\<close>

text \<open>
  \<open>split\<close> and \<open>join\<close> are inverse to each other on what the handlers pass
  them: joining the pieces of a string gives the string back, and splitting a joined
  list gives the list back when no element holds the separator.
\<close>

lemma js_split_nonempty: "js_split s \<noteq> []"
  by (induction s rule: js_split.induct) (auto split: list.splits)

lemma js_join_split: "js_join (js_split s) = s"
proof (induction s rule: js_split.induct)
  case (3 c d cs)
  show ?case
  proof (cases "c = CHR '','' \<and> d = CHR '' ''")
    case True
    with 3 show ?thesis
      by (cases "js_split cs") (auto simp: js_split_nonempty)
  next
    case False
    obtain p ps where sp: "js_split (d # cs) = p # ps"
      using js_split_nonempty[of "d # cs"] by (cases "js_split (d # cs)") auto
    have "js_join ((c # p) # ps) = c # js_join (p # ps)"
      by (cases ps) auto
    with False sp 3 show ?thesis by auto
  qed
qed auto

lemma js_split_first:
  "js_split (d # cs) = p # ps \<Longrightarrow> p = [] \<or> hd p = d"
  by (cases cs) (auto split: if_splits list.splits)

lemma js_split_pieces: "x \<in> set (js_split s) \<Longrightarrow> js_split x = [x]"
proof (induction s arbitrary: x rule: js_split.induct)
  case (3 c d cs)
  show ?case
  proof (cases "c = CHR '','' \<and> d = CHR '' ''")
    case True
    with 3 show ?thesis by auto
  next
    case False
    obtain p ps where sp: "js_split (d # cs) = p # ps"
      using js_split_nonempty[of "d # cs"] by (cases "js_split (d # cs)") auto
    from False sp 3(3) have x: "x = c # p \<or> x \<in> set ps" by auto
    have pp: "js_split p = [p]" using 3(2)[OF False, of p] sp by simp
    show ?thesis
    proof (cases "x = c # p")
      case True
      show ?thesis
      proof (cases p)
        case Nil
        with True show ?thesis by simp
      next
        case (Cons e es)
        with js_split_first[OF sp] have "e = d" by simp
        with Cons pp True False show ?thesis by auto
      qed
    next
      case False
      with x have "x \<in> set ps" by simp
      with 3(2)[OF \<open>\<not> (c = CHR '','' \<and> d = CHR '' '')\<close>, of x] sp show ?thesis by simp
    qed
  qed
qed auto

lemma js_split_append:
  "js_split x = [x] \<Longrightarrow> js_split (x @ '', '' @ r) = x # js_split r"
proof (induction x rule: js_split.induct)
  case 1
  then show ?case by simp
next
  case (2 c)
  then show ?case by simp
next
  case (3 c d cs)
  show ?case
  proof (cases "c = CHR '','' \<and> d = CHR '' ''")
    case True
    with 3(3) show ?thesis by simp
  next
    case False
    obtain p ps where sp: "js_split (d # cs) = p # ps"
      using js_split_nonempty[of "d # cs"] by (cases "js_split (d # cs)") auto
    with False 3(3) have "p = d # cs" "ps = []" by auto
    with sp have "js_split (d # cs) = [d # cs]" by simp
    from 3(2)[OF False this] False show ?thesis by simp
  qed
qed

lemma js_split_join:
  "xs \<noteq> [] \<Longrightarrow> \<forall>x\<in>set xs. js_split x = [x] \<Longrightarrow> js_split (js_join xs) = xs"
proof (induction xs rule: js_join.induct)
  case (3 x y ys)
  then show ?case using js_split_append[of x "js_join (y # ys)"] by simp
qed auto

lemma js_join_empty: "js_join xs = [] \<Longrightarrow> xs = [] \<or> xs = [[]]"
  by (induction xs rule: js_join.induct) auto

lemma tagList_pieces: "x \<in> set (tagList t) \<Longrightarrow> js_split x = [x]"
  by (auto simp: tagList_def dest: js_split_pieces split: if_splits)

lemma confirmedTags_pieces: "x \<in> set (confirmedTags t) \<Longrightarrow> js_split x = [x]"
  by (auto simp: confirmedTags_def Let_def dest: tagList_pieces split: if_splits)

lemma confirmedTags_has_tag: "''payment-confirmed'' \<in> set (confirmedTags t)"
  by (simp add: confirmedTags_def Let_def)

lemma join_tagList: "js_join (tagList t) = t"
  by (simp add: tagList_def truthy_str_def js_join_split)

lemma tagList_join_confirmedTags: "tagList (js_join (confirmedTags t)) = confirmedTags t"
proof -
  let ?xs = "confirmedTags t"
  have ne: "?xs \<noteq> []" using confirmedTags_has_tag[of t] by auto
  have "?xs \<noteq> [[]]" using confirmedTags_has_tag[of t] by auto
  with ne have "js_join ?xs \<noteq> []" using js_join_empty[of ?xs] by blast
  moreover have "js_split (js_join ?xs) = ?xs"
    using js_split_join[OF ne] confirmedTags_pieces by blast
  ultimately show ?thesis by (simp add: tagList_def truthy_str_def)
qed

lemma confirmedTags_again: "confirmedTags (js_join (confirmedTags t)) = confirmedTags t"
  using confirmedTags_has_tag[of t]
  by (simp add: confirmedTags_def[of "js_join (confirmedTags t)"] tagList_join_confirmedTags Let_def)


section \<open>Payment confirmation is idempotent\<close>

text \<open>The requests a client sends, and the order a search finds.\<close>

lemma sent_A: "snd (makeShopifyRequest_A env e m d) = [Shopify (shopifyOptions env e m d)]"
  by (simp add: makeShopifyRequest_A_def Let_def)

lemma sent_B: "snd (makeShopifyRequest_B env e m d) = [Shopify (shopifyOptions env e m d)]"
  by (simp add: makeShopifyRequest_B_def Let_def)

lemma firstOrder_SomeD:
  "firstOrder search = Some order \<Longrightarrow>
     \<exists>r rest. search = (Inr r, snd search) \<and> orders r = Some (order # rest)"
  by (cases search) (auto simp: firstOrder_def split: sum.splits option.splits list.splits)

lemma firstOrder_NoneD:
  "firstOrder search = None \<Longrightarrow>
     (\<exists>e. search = (Inl e, snd search))
     \<or> (\<exists>r. search = (Inr r, snd search) \<and> (orders r = None \<or> orders r = Some []))"
  by (cases search) (auto simp: firstOrder_def split: sum.splits option.splits list.splits)

lemma confirmPayment_located:
  assumes "firstOrder (makeShopifyRequest (ordersQuery (replace_hash orderNumber)) GET None)
             = Some order"
  shows "snd (confirmPayment makeShopifyRequest orderNumber) =
           snd (makeShopifyRequest (ordersQuery (replace_hash orderNumber)) GET None)
           @ snd (makeShopifyRequest (''orders/'' @ order_id order @ ''.json'') PUT
                    (Some (OrderTags (order_id order)
                             (js_join (confirmedTags (tags order))))))"
proof -
  from firstOrder_SomeD[OF assms] obtain r rest sent where
    "makeShopifyRequest (ordersQuery (replace_hash orderNumber)) GET None = (Inr r, sent)"
    "orders r = Some (order # rest)" by metis
  then show ?thesis
    by (auto simp add: confirmPayment_def try_catch_def await_def yield_def Let_def
        split: prod.splits sum.splits)
qed

text \<open>
  Claim C4. The confirm-payment handler pushes \<open>payment-confirmed\<close> only when the
  tag list does not include it, and writes the joined list back. Writing is idempotent:
  on the tags it has written, the handler writes the same text again, for the list read
  back is the list written; so two confirmations in a row push the tag at most once and
  the list grows by at most one element. The new list begins with the old one, holds the
  old tags and \<open>payment-confirmed\<close> and nothing else, and holds the tag once when it
  was pushed. On an order that is already confirmed the handler writes the tags back
  unchanged. In both files the located order's update request carries these tags.
\<close>

theorem confirm_tags_idempotent:
  "js_join (confirmedTags (js_join (confirmedTags t))) = js_join (confirmedTags t)
   \<and> tagList (js_join (confirmedTags t)) = confirmedTags t
   \<and> length (confirmedTags (js_join (confirmedTags t))) \<le> length (tagList t) + 1
   \<and> length (confirmedTags t) \<le> length (tagList t) + 1
   \<and> set (confirmedTags t) = set (tagList t) \<union> {''payment-confirmed''}
   \<and> take (length (tagList t)) (confirmedTags t) = tagList t
   \<and> count_list (confirmedTags t) ''payment-confirmed'' =
       (if ''payment-confirmed'' \<in> set (tagList t)
        then count_list (tagList t) ''payment-confirmed'' else 1)
   \<and> (''payment-confirmed'' \<in> set (tagList t) \<longrightarrow>
        confirmedTags t = tagList t \<and> js_join (confirmedTags t) = t)
   \<and> (firstOrder (makeShopifyRequest_A env (ordersQuery (replace_hash orderNumber)) GET None)
         = Some order \<longrightarrow>
       snd (confirmPayment_A env orderNumber) =
         [Shopify (shopifyOptions env (ordersQuery (replace_hash orderNumber)) GET None),
          Shopify (shopifyOptions env (''orders/'' @ order_id order @ ''.json'') PUT
                     (Some (OrderTags (order_id order)
                              (js_join (confirmedTags (tags order))))))])
   \<and> (firstOrder (makeShopifyRequest_B env (ordersQuery (replace_hash orderNumber)) GET None)
         = Some order \<longrightarrow>
       snd (confirmPayment_B env orderNumber) =
         [Shopify (shopifyOptions env (ordersQuery (replace_hash orderNumber)) GET None),
          Shopify (shopifyOptions env (''orders/'' @ order_id order @ ''.json'') PUT
                     (Some (OrderTags (order_id order)
                              (js_join (confirmedTags (tags order))))))])"
proof -
  have 1: "js_join (confirmedTags (js_join (confirmedTags t))) = js_join (confirmedTags t)"
    by (simp add: confirmedTags_again)
  have 2: "tagList (js_join (confirmedTags t)) = confirmedTags t"
    by (rule tagList_join_confirmedTags)
  have 4: "length (confirmedTags t) \<le> length (tagList t) + 1"
    by (simp add: confirmedTags_def Let_def)
  have 3: "length (confirmedTags (js_join (confirmedTags t))) \<le> length (tagList t) + 1"
    using 4 by (simp add: confirmedTags_again)
  have 5: "set (confirmedTags t) = set (tagList t) \<union> {''payment-confirmed''}"
    by (auto simp add: confirmedTags_def Let_def)
  have 6: "take (length (tagList t)) (confirmedTags t) = tagList t"
    by (simp add: confirmedTags_def Let_def)
  have 7: "count_list (confirmedTags t) ''payment-confirmed'' =
       (if ''payment-confirmed'' \<in> set (tagList t)
        then count_list (tagList t) ''payment-confirmed'' else 1)"
    by (simp add: confirmedTags_def Let_def count_list_0_iff)
  have 8: "''payment-confirmed'' \<in> set (tagList t) \<longrightarrow>
        confirmedTags t = tagList t \<and> js_join (confirmedTags t) = t"
    by (simp add: confirmedTags_def Let_def join_tagList)
  have 9: "firstOrder (makeShopifyRequest_A env (ordersQuery (replace_hash orderNumber)) GET None)
         = Some order \<longrightarrow>
       snd (confirmPayment_A env orderNumber) =
         [Shopify (shopifyOptions env (ordersQuery (replace_hash orderNumber)) GET None),
          Shopify (shopifyOptions env (''orders/'' @ order_id order @ ''.json'') PUT
                     (Some (OrderTags (order_id order)
                              (js_join (confirmedTags (tags order))))))]"
    using confirmPayment_located[where makeShopifyRequest = "makeShopifyRequest_A env"]
    by (simp add: confirmPayment_A_def sent_A)
  have 10: "firstOrder (makeShopifyRequest_B env (ordersQuery (replace_hash orderNumber)) GET None)
         = Some order \<longrightarrow>
       snd (confirmPayment_B env orderNumber) =
         [Shopify (shopifyOptions env (ordersQuery (replace_hash orderNumber)) GET None),
          Shopify (shopifyOptions env (''orders/'' @ order_id order @ ''.json'') PUT
                     (Some (OrderTags (order_id order)
                              (js_join (confirmedTags (tags order))))))]"
    using confirmPayment_located[where makeShopifyRequest = "makeShopifyRequest_B env"]
    by (simp add: confirmPayment_B_def sent_B)
  from 1 2 3 4 5 6 7 8 9 10 show ?thesis by blast
qed

text \<open>The sample environment finds the sample order.\<close>

lemma sample_search_A:
  "firstOrder (makeShopifyRequest_A sample_env (ordersQuery (replace_hash ''#1006'')) GET None)
     = Some sample_order"
  by (simp add: firstOrder_def makeShopifyRequest_A_def shopifyOptions_def ordersQuery_def
      sample_env_def sample_net_def sample_parse_def)

lemma sample_search_B:
  "firstOrder (makeShopifyRequest_B sample_env (ordersQuery (replace_hash ''#1006'')) GET None)
     = Some sample_order"
  by (simp add: firstOrder_def makeShopifyRequest_B_def shopifyOptions_def ordersQuery_def
      sample_env_def sample_net_def sample_parse_def)

theorem confirm_tags_idempotent_witness:
  "js_join (confirmedTags ''vip, payment-confirmed'') = ''vip, payment-confirmed''
   \<and> snd (confirmPayment_A sample_env ''#1006'') =
       [Shopify (shopifyOptions sample_env ''orders.json?name=1006&status=any'' GET None),
        Shopify (shopifyOptions sample_env ''orders/5001.json'' PUT
                   (Some (OrderTags ''5001'' ''vip, wholesale, payment-confirmed'')))]
   \<and> snd (confirmPayment_B sample_env ''#1006'') =
       [Shopify (shopifyOptions sample_env ''orders.json?name=1006&status=any'' GET None),
        Shopify (shopifyOptions sample_env ''orders/5001.json'' PUT
                   (Some (OrderTags ''5001'' ''vip, wholesale, payment-confirmed'')))]"
  using confirm_tags_idempotent
          [of "''vip, payment-confirmed''" sample_env "''#1006''" sample_order]
        sample_search_A sample_search_B
  by (simp add: tagList_def truthy_str_def confirmedTags_def ordersQuery_def sample_order_def)

section \<open>Cancelling an order\<close>

lemma cancelOrder_located:
  assumes "firstOrder (makeShopifyRequest (ordersQuery (replace_hash orderNumber)) GET None)
             = Some order"
  shows "cancelOrder makeShopifyRequest env orderNumber reason =
           (if canCancelOrder (dateParse env) (clock env) order
            then try_catch
                   (await (makeShopifyRequest (ordersQuery (replace_hash orderNumber)) GET None)
                      (\<lambda>_. await (makeShopifyRequest
                                    (''orders/'' @ order_id order @ ''/cancel.json'') POST
                                    (Some (CancelData (or_else reason ''customer'') True)))
                             (\<lambda>_. yield (200, Success MsgOrderCancelled))))
                   (500, Failure MsgErrorCancellingOrder)
            else ((400, Failure MsgCannotCancelAfter3Days),
                  snd (makeShopifyRequest (ordersQuery (replace_hash orderNumber)) GET None)))"
proof -
  from firstOrder_SomeD[OF assms] obtain r rest sent where
    "makeShopifyRequest (ordersQuery (replace_hash orderNumber)) GET None = (Inr r, sent)"
    "orders r = Some (order # rest)" by metis
  then show ?thesis
    by (auto simp add: cancelOrder_def try_catch_def await_def yield_def Let_def
        split: prod.splits sum.splits)
qed

lemma cancelOrder_not_located:
  assumes "firstOrder (makeShopifyRequest (ordersQuery (replace_hash orderNumber)) GET None)
             = None"
  shows "snd (cancelOrder makeShopifyRequest env orderNumber reason) =
           snd (makeShopifyRequest (ordersQuery (replace_hash orderNumber)) GET None)"
  using firstOrder_NoneD[OF assms]
  by (auto simp add: cancelOrder_def try_catch_def await_def yield_def Let_def
        split: prod.splits sum.splits)

lemma await_sent:
  "snd (await m (\<lambda>_. await m' (\<lambda>_. yield x))) =
     (case fst m of Inl e \<Rightarrow> snd m | Inr a \<Rightarrow> snd m @ snd m')"
  by (auto simp: await_def yield_def split: prod.splits sum.splits)

lemma try_catch_sent: "snd (try_catch block r) = snd block"
  by (auto simp: try_catch_def split: prod.splits sum.splits)

text \<open>
  Claim C5. For a located order that \<open>canCancelOrder\<close> refuses (one created ten
  days ago, say), the cancellation handler answers 400 with the fixed text that the
  order cannot be cancelled after 3 days, and has sent nothing but the order search. For
  a located order that \<open>canCancelOrder\<close> accepts, the handler sends, after the search,
  the cancel request with the request's reason (\<open>customer\<close> when the request gives
  none) and \<open>email: true\<close>, which asks the platform to notify the customer. When no
  order is located, only the search is sent. So the cancel request goes out only for a
  located order that can be cancelled. This holds in both files.
\<close>

theorem cancel_guard:
  "(firstOrder (makeShopifyRequest_A env (ordersQuery (replace_hash orderNumber)) GET None)
      = Some order \<longrightarrow>
      (if canCancelOrder (dateParse env) (clock env) order
       then snd (cancelOrder_A env orderNumber reason) =
              [Shopify (shopifyOptions env (ordersQuery (replace_hash orderNumber)) GET None),
               Shopify (shopifyOptions env (''orders/'' @ order_id order @ ''/cancel.json'')
                          POST (Some (CancelData (or_else reason ''customer'') True)))]
       else cancelOrder_A env orderNumber reason =
              ((400, Failure MsgCannotCancelAfter3Days),
               [Shopify (shopifyOptions env (ordersQuery (replace_hash orderNumber)) GET
                           None)])))
   \<and> (firstOrder (makeShopifyRequest_B env (ordersQuery (replace_hash orderNumber)) GET None)
      = Some order \<longrightarrow>
      (if canCancelOrder (dateParse env) (clock env) order
       then snd (cancelOrder_B env orderNumber reason) =
              [Shopify (shopifyOptions env (ordersQuery (replace_hash orderNumber)) GET None),
               Shopify (shopifyOptions env (''orders/'' @ order_id order @ ''/cancel.json'')
                          POST (Some (CancelData (or_else reason ''customer'') True)))]
       else cancelOrder_B env orderNumber reason =
              ((400, Failure MsgCannotCancelAfter3Days),
               [Shopify (shopifyOptions env (ordersQuery (replace_hash orderNumber)) GET
                           None)])))
   \<and> (firstOrder (makeShopifyRequest_A env (ordersQuery (replace_hash orderNumber)) GET None)
      = None \<longrightarrow>
      snd (cancelOrder_A env orderNumber reason) =
        [Shopify (shopifyOptions env (ordersQuery (replace_hash orderNumber)) GET None)])
   \<and> (firstOrder (makeShopifyRequest_B env (ordersQuery (replace_hash orderNumber)) GET None)
      = None \<longrightarrow>
      snd (cancelOrder_B env orderNumber reason) =
        [Shopify (shopifyOptions env (ordersQuery (replace_hash orderNumber)) GET None)])"
proof -
  have a: "firstOrder (makeShopifyRequest_A env (ordersQuery (replace_hash orderNumber)) GET None)
      = Some order \<longrightarrow>
      (if canCancelOrder (dateParse env) (clock env) order
       then snd (cancelOrder_A env orderNumber reason) =
              [Shopify (shopifyOptions env (ordersQuery (replace_hash orderNumber)) GET None),
               Shopify (shopifyOptions env (''orders/'' @ order_id order @ ''/cancel.json'')
                          POST (Some (CancelData (or_else reason ''customer'') True)))]
       else cancelOrder_A env orderNumber reason =
              ((400, Failure MsgCannotCancelAfter3Days),
               [Shopify (shopifyOptions env (ordersQuery (replace_hash orderNumber)) GET
                           None)]))"
  proof
    assume f: "firstOrder (makeShopifyRequest_A env (ordersQuery (replace_hash orderNumber)) GET None)
      = Some order"
    then have "fst (makeShopifyRequest_A env (ordersQuery (replace_hash orderNumber)) GET None)
       \<noteq> Inl e" for e
      by (auto simp: firstOrder_def)
    then show "(if canCancelOrder (dateParse env) (clock env) order
       then snd (cancelOrder_A env orderNumber reason) =
              [Shopify (shopifyOptions env (ordersQuery (replace_hash orderNumber)) GET None),
               Shopify (shopifyOptions env (''orders/'' @ order_id order @ ''/cancel.json'')
                          POST (Some (CancelData (or_else reason ''customer'') True)))]
       else cancelOrder_A env orderNumber reason =
              ((400, Failure MsgCannotCancelAfter3Days),
               [Shopify (shopifyOptions env (ordersQuery (replace_hash orderNumber)) GET
                           None)]))"
      unfolding cancelOrder_A_def
        cancelOrder_located[where makeShopifyRequest = "makeShopifyRequest_A env", OF f]
      by (auto simp add: try_catch_sent await_sent sent_A split: sum.splits)
  qed
  have b: "firstOrder (makeShopifyRequest_B env (ordersQuery (replace_hash orderNumber)) GET None)
      = Some order \<longrightarrow>
      (if canCancelOrder (dateParse env) (clock env) order
       then snd (cancelOrder_B env orderNumber reason) =
              [Shopify (shopifyOptions env (ordersQuery (replace_hash orderNumber)) GET None),
               Shopify (shopifyOptions env (''orders/'' @ order_id order @ ''/cancel.json'')
                          POST (Some (CancelData (or_else reason ''customer'') True)))]
       else cancelOrder_B env orderNumber reason =
              ((400, Failure MsgCannotCancelAfter3Days),
               [Shopify (shopifyOptions env (ordersQuery (replace_hash orderNumber)) GET
                           None)]))"
  proof
    assume f: "firstOrder (makeShopifyRequest_B env (ordersQuery (replace_hash orderNumber)) GET None)
      = Some order"
    then have "fst (makeShopifyRequest_B env (ordersQuery (replace_hash orderNumber)) GET None)
       \<noteq> Inl e" for e
      by (auto simp: firstOrder_def)
    then show "(if canCancelOrder (dateParse env) (clock env) order
       then snd (cancelOrder_B env orderNumber reason) =
              [Shopify (shopifyOptions env (ordersQuery (replace_hash orderNumber)) GET None),
               Shopify (shopifyOptions env (''orders/'' @ order_id order @ ''/cancel.json'')
                          POST (Some (CancelData (or_else reason ''customer'') True)))]
       else cancelOrder_B env orderNumber reason =
              ((400, Failure MsgCannotCancelAfter3Days),
               [Shopify (shopifyOptions env (ordersQuery (replace_hash orderNumber)) GET
                           None)]))"
      unfolding cancelOrder_B_def
        cancelOrder_located[where makeShopifyRequest = "makeShopifyRequest_B env", OF f]
      by (auto simp add: try_catch_sent await_sent sent_B split: sum.splits)
  qed
  have c: "firstOrder (makeShopifyRequest_A env (ordersQuery (replace_hash orderNumber)) GET None)
      = None \<longrightarrow>
      snd (cancelOrder_A env orderNumber reason) =
        [Shopify (shopifyOptions env (ordersQuery (replace_hash orderNumber)) GET None)]"
    using cancelOrder_not_located[where makeShopifyRequest = "makeShopifyRequest_A env" and env = env]
    by (simp add: cancelOrder_A_def sent_A)
  have d: "firstOrder (makeShopifyRequest_B env (ordersQuery (replace_hash orderNumber)) GET None)
      = None \<longrightarrow>
      snd (cancelOrder_B env orderNumber reason) =
        [Shopify (shopifyOptions env (ordersQuery (replace_hash orderNumber)) GET None)]"
    using cancelOrder_not_located[where makeShopifyRequest = "makeShopifyRequest_B env" and env = env]
    by (simp add: cancelOrder_B_def sent_B)
  from a b c d show ?thesis by blast
qed


theorem cancel_guard_witness:
  "cancelOrder_A (sample_env\<lparr>clock := 1710151200000\<rparr>) ''#1006''
       (Some ''changed my mind'') =
     ((400, Failure MsgCannotCancelAfter3Days),
      [Shopify (shopifyOptions sample_env ''orders.json?name=1006&status=any'' GET None)])
   \<and> cancelOrder_B (sample_env\<lparr>clock := 1710151200000\<rparr>) ''#1006'' None =
     ((400, Failure MsgCannotCancelAfter3Days),
      [Shopify (shopifyOptions sample_env ''orders.json?name=1006&status=any'' GET None)])
   \<and> snd (cancelOrder_A sample_env ''#1006'' None) =
     [Shopify (shopifyOptions sample_env ''orders.json?name=1006&status=any'' GET None),
      Shopify (shopifyOptions sample_env ''orders/5001/cancel.json'' POST
                 (Some (CancelData ''customer'' True)))]
   \<and> snd (cancelOrder_B sample_env ''#1006'' (Some ''changed my mind'')) =
     [Shopify (shopifyOptions sample_env ''orders.json?name=1006&status=any'' GET None),
      Shopify (shopifyOptions sample_env ''orders/5001/cancel.json'' POST
                 (Some (CancelData ''changed my mind'' True)))]
   \<and> snd (cancelOrder_A sample_env ''#1007'' None) =
     [Shopify (shopifyOptions sample_env ''orders.json?name=1007&status=any'' GET None)]
   \<and> snd (cancelOrder_B sample_env ''#1007'' None) =
     [Shopify (shopifyOptions sample_env ''orders.json?name=1007&status=any'' GET None)]"
proof -
  let ?late = "sample_env\<lparr>clock := 1710151200000\<rparr>"
  have late: "firstOrder (makeShopifyRequest_A ?late (ordersQuery (replace_hash ''#1006'')) GET None)
                = Some sample_order"
     "firstOrder (makeShopifyRequest_B ?late (ordersQuery (replace_hash ''#1006'')) GET None)
                = Some sample_order"
    by (simp_all add: firstOrder_def makeShopifyRequest_A_def makeShopifyRequest_B_def
        shopifyOptions_def ordersQuery_def sample_env_def sample_net_def sample_parse_def)
  have none: "firstOrder (makeShopifyRequest_A sample_env (ordersQuery (replace_hash ''#1007'')) GET None)
                = None"
     "firstOrder (makeShopifyRequest_B sample_env (ordersQuery (replace_hash ''#1007'')) GET None)
                = None"
    by (simp_all add: firstOrder_def makeShopifyRequest_A_def makeShopifyRequest_B_def
        shopifyOptions_def ordersQuery_def sample_env_def sample_net_def sample_parse_def)
  have can: "canCancelOrder (dateParse sample_env) (clock sample_env) sample_order"
    "\<not> canCancelOrder (dateParse ?late) (clock ?late) sample_order"
    by (simp_all add: canCancelOrder_def truthy_def sample_env_def sample_order_def)
  have opts: "shopifyOptions (sample_env\<lparr>clock := c\<rparr>) = shopifyOptions sample_env" for c
    by (simp add: shopifyOptions_def fun_eq_iff)
  show ?thesis
    using cancel_guard[of ?late "''#1006''" sample_order "Some ''changed my mind''"]
      cancel_guard[of ?late "''#1006''" sample_order None]
      cancel_guard[of sample_env "''#1006''" sample_order None]
      cancel_guard[of sample_env "''#1006''" sample_order "Some ''changed my mind''"]
      cancel_guard[of sample_env "''#1007''" sample_order None]
      late none can sample_search_A sample_search_B
    by (simp add: opts or_else_def ordersQuery_def sample_order_def)
qed

section \<open>The request client\<close>

text \<open>
  A response with status 502 and an HTML body: \<open>JSON.parse\<close> throws before the status
  is looked at, so both files reject with the parse failure and not with the
  \<open>Shopify API Error\<close> that carries the status and the body.
\<close>

theorem decode_before_status_counterexample:
  "fst (makeShopifyRequest_B (sample_env\<lparr>net := (\<lambda>_. HttpResponse 502 ''<html>'')\<rparr>)
          ''orders.json'' GET None) = Inl (DecodeError Rest None ''<html>'')
   \<and> fst (makeShopifyRequest_B (sample_env\<lparr>net := (\<lambda>_. HttpResponse 502 ''<html>'')\<rparr>)
          ''orders.json'' GET None) \<noteq> Inl (UpstreamError Rest 502 ''<html>'')
   \<and> fst (makeShopifyRequest_A (sample_env\<lparr>net := (\<lambda>_. HttpResponse 502 ''<html>'')\<rparr>)
          ''orders.json'' GET None) = Inl (DecodeError Rest (Some 502) ''<html>'')"
  by (simp add: makeShopifyRequest_B_def makeShopifyRequest_A_def sample_env_def
      sample_parse_def)

text \<open>
  Claim C8, as the code has it. \<open>makeShopifyRequest\<close> rejects with the transport error
  when the request fails on the network; it rejects with a decode error for every
  response whose body is not valid JSON, whatever the status; it rejects with an
  upstream error that carries the status code and the body (the body text in file B, the
  re-serialised decoded body in file A) for every response whose body is valid JSON and
  whose status is outside 200 to 299; and it resolves with the decoded body, unchanged,
  for every response whose body is valid JSON and whose status is within 200 to 299.
\<close>

theorem request_client_outcomes:
  "(net env (shopifyOptions env endpoint method data) = NetworkError e \<longrightarrow>
      fst (makeShopifyRequest_B env endpoint method data) = Inl (TransportError e)
      \<and> fst (makeShopifyRequest_A env endpoint method data) = Inl (TransportError e))
   \<and> (net env (shopifyOptions env endpoint method data) = HttpResponse statusCode responseBody
        \<and> jsonParse env responseBody = None \<longrightarrow>
      fst (makeShopifyRequest_B env endpoint method data)
        = Inl (DecodeError Rest None responseBody)
      \<and> fst (makeShopifyRequest_A env endpoint method data)
        = Inl (DecodeError Rest (Some statusCode) (take 200 responseBody)))
   \<and> (net env (shopifyOptions env endpoint method data) = HttpResponse statusCode responseBody
        \<and> jsonParse env responseBody = Some jsonResponse
        \<and> (statusCode < 200 \<or> 299 < statusCode) \<longrightarrow>
      fst (makeShopifyRequest_B env endpoint method data)
        = Inl (UpstreamError Rest statusCode responseBody)
      \<and> fst (makeShopifyRequest_A env endpoint method data)
        = Inl (UpstreamError Rest statusCode (jsonStringify env jsonResponse)))
   \<and> (net env (shopifyOptions env endpoint method data) = HttpResponse statusCode responseBody
        \<and> jsonParse env responseBody = Some jsonResponse
        \<and> 200 \<le> statusCode \<and> statusCode \<le> 299 \<longrightarrow>
      fst (makeShopifyRequest_B env endpoint method data) = Inr jsonResponse
      \<and> fst (makeShopifyRequest_A env endpoint method data) = Inr jsonResponse)"
  by (auto simp add: makeShopifyRequest_B_def makeShopifyRequest_A_def Let_def)

theorem request_client_outcomes_witness:
  "fst (makeShopifyRequest_B (sample_env\<lparr>net := (\<lambda>_. NetworkError ''ECONNRESET'')\<rparr>)
          ''orders.json'' GET None) = Inl (TransportError ''ECONNRESET'')
   \<and> fst (makeShopifyRequest_A (sample_env\<lparr>net := (\<lambda>_. HttpResponse 200 ''<html>'')\<rparr>)
          ''orders.json'' GET None) = Inl (DecodeError Rest (Some 200) ''<html>'')
   \<and> fst (makeShopifyRequest_B (sample_env\<lparr>net := (\<lambda>_. HttpResponse 404 ''{}'')\<rparr>)
          ''orders.json'' GET None) = Inl (UpstreamError Rest 404 ''{}'')
   \<and> fst (makeShopifyRequest_A (sample_env\<lparr>net := (\<lambda>_. HttpResponse 201 ''{}'')\<rparr>)
          ''orders.json'' GET None) = Inr \<lparr>orders = None, metafields = None, gql = None\<rparr>"
  using request_client_outcomes
      [of "sample_env\<lparr>net := (\<lambda>_. NetworkError ''ECONNRESET'')\<rparr>" "''orders.json''" GET None
          "''ECONNRESET''" 0 "[]" "\<lparr>orders = None, metafields = None, gql = None\<rparr>"]
    request_client_outcomes
      [of "sample_env\<lparr>net := (\<lambda>_. HttpResponse 200 ''<html>'')\<rparr>" "''orders.json''" GET None
          "[]" 200 "''<html>''" "\<lparr>orders = None, metafields = None, gql = None\<rparr>"]
    request_client_outcomes
      [of "sample_env\<lparr>net := (\<lambda>_. HttpResponse 404 ''{}'')\<rparr>" "''orders.json''" GET None
          "[]" 404 "''{}''" "\<lparr>orders = None, metafields = None, gql = None\<rparr>"]
    request_client_outcomes
      [of "sample_env\<lparr>net := (\<lambda>_. HttpResponse 201 ''{}'')\<rparr>" "''orders.json''" GET None
          "[]" 201 "''{}''" "\<lparr>orders = None, metafields = None, gql = None\<rparr>"]
  by (simp add: sample_env_def sample_parse_def)

section \<open>Cleaning the order number\<close>

lemma replace_hash_clean: "CHR ''#'' \<notin> set n \<Longrightarrow> replace_hash n = n"
  by (induction n) auto

lemma replace_hash_once:
  "count_list s (CHR ''#'') \<le> 1 \<Longrightarrow> CHR ''#'' \<notin> set (replace_hash s)"
  by (induction s) (auto simp: count_list_0_iff split: if_splits)

lemma replace_hash_first:
  "CHR ''#'' \<notin> set a \<Longrightarrow> replace_hash (a @ CHR ''#'' # b) = a @ b"
  by (induction a) auto

text \<open>
  Claim C7. An order number comes as \<open>n\<close> or as \<open>#n\<close>, where \<open>n\<close> holds no
  \<open>#\<close>. Cleaning strips the \<open>#\<close> prefix and leaves a number without \<open>#\<close>
  unchanged. It is idempotent on both forms: cleaning \<open>n\<close> or \<open>#n\<close> a second time
  changes nothing. So looking up \<open>#n\<close> and looking up \<open>n\<close> send the same query, and
  each of the four handlers of either file does on \<open>#n\<close> exactly what it does on
  \<open>n\<close>. Beyond the two forms, cleaning is idempotent on every text with at most one
  \<open>#\<close>, and what cleaning does is fixed in full: it removes the first \<open>#\<close> of the
  text and keeps the rest.
\<close>

theorem clean_order_number:
  "replace_hash (CHR ''#'' # n) = n
   \<and> (CHR ''#'' \<notin> set n \<longrightarrow>
        replace_hash n = n
        \<and> replace_hash (replace_hash n) = replace_hash n
        \<and> replace_hash (replace_hash (CHR ''#'' # n)) = replace_hash (CHR ''#'' # n)
        \<and> ordersQuery (replace_hash (CHR ''#'' # n)) = ordersQuery (replace_hash n)
        \<and> getOrder_A env (CHR ''#'' # n) = getOrder_A env n
        \<and> getOrder_B env (CHR ''#'' # n) = getOrder_B env n
        \<and> uploadPayment_A env (CHR ''#'' # n) attached = uploadPayment_A env n attached
        \<and> uploadPayment_B env (CHR ''#'' # n) attached = uploadPayment_B env n attached
        \<and> confirmPayment_A env (CHR ''#'' # n) = confirmPayment_A env n
        \<and> confirmPayment_B env (CHR ''#'' # n) = confirmPayment_B env n
        \<and> cancelOrder_A env (CHR ''#'' # n) reason = cancelOrder_A env n reason
        \<and> cancelOrder_B env (CHR ''#'' # n) reason = cancelOrder_B env n reason)
   \<and> (count_list s (CHR ''#'') \<le> 1 \<longrightarrow> replace_hash (replace_hash s) = replace_hash s)
   \<and> (CHR ''#'' \<notin> set a \<longrightarrow> replace_hash (a @ CHR ''#'' # b) = a @ b)"
proof -
  have 1: "replace_hash (CHR ''#'' # n) = n" by simp
  have 2: "CHR ''#'' \<notin> set n \<longrightarrow>
        replace_hash n = n
        \<and> replace_hash (replace_hash n) = replace_hash n
        \<and> replace_hash (replace_hash (CHR ''#'' # n)) = replace_hash (CHR ''#'' # n)
        \<and> ordersQuery (replace_hash (CHR ''#'' # n)) = ordersQuery (replace_hash n)
        \<and> getOrder_A env (CHR ''#'' # n) = getOrder_A env n
        \<and> getOrder_B env (CHR ''#'' # n) = getOrder_B env n
        \<and> uploadPayment_A env (CHR ''#'' # n) attached = uploadPayment_A env n attached
        \<and> uploadPayment_B env (CHR ''#'' # n) attached = uploadPayment_B env n attached
        \<and> confirmPayment_A env (CHR ''#'' # n) = confirmPayment_A env n
        \<and> confirmPayment_B env (CHR ''#'' # n) = confirmPayment_B env n
        \<and> cancelOrder_A env (CHR ''#'' # n) reason = cancelOrder_A env n reason
        \<and> cancelOrder_B env (CHR ''#'' # n) reason = cancelOrder_B env n reason"
  proof
    assume "CHR ''#'' \<notin> set n"
    then have c: "replace_hash n = n" by (rule replace_hash_clean)
    show "replace_hash n = n
        \<and> replace_hash (replace_hash n) = replace_hash n
        \<and> replace_hash (replace_hash (CHR ''#'' # n)) = replace_hash (CHR ''#'' # n)
        \<and> ordersQuery (replace_hash (CHR ''#'' # n)) = ordersQuery (replace_hash n)
        \<and> getOrder_A env (CHR ''#'' # n) = getOrder_A env n
        \<and> getOrder_B env (CHR ''#'' # n) = getOrder_B env n
        \<and> uploadPayment_A env (CHR ''#'' # n) attached = uploadPayment_A env n attached
        \<and> uploadPayment_B env (CHR ''#'' # n) attached = uploadPayment_B env n attached
        \<and> confirmPayment_A env (CHR ''#'' # n) = confirmPayment_A env n
        \<and> confirmPayment_B env (CHR ''#'' # n) = confirmPayment_B env n
        \<and> cancelOrder_A env (CHR ''#'' # n) reason = cancelOrder_A env n reason
        \<and> cancelOrder_B env (CHR ''#'' # n) reason = cancelOrder_B env n reason"
      unfolding getOrder_A_def getOrder_B_def uploadPayment_A_def uploadPayment_B_def
        confirmPayment_A_def confirmPayment_B_def cancelOrder_A_def cancelOrder_B_def
        confirmPayment_def cancelOrder_def 1 c
      by simp
  qed
  have 3: "count_list s (CHR ''#'') \<le> 1 \<longrightarrow> replace_hash (replace_hash s) = replace_hash s"
    using replace_hash_once[of s] replace_hash_clean[of "replace_hash s"] by blast
  have 4: "CHR ''#'' \<notin> set a \<longrightarrow> replace_hash (a @ CHR ''#'' # b) = a @ b"
    by (simp add: replace_hash_first)
  from 1 2 3 4 show ?thesis by blast
qed

theorem clean_order_number_witness:
  "replace_hash ''#1006'' = ''1006''
   \<and> replace_hash ''1006'' = ''1006''
   \<and> replace_hash (replace_hash ''1006'') = replace_hash ''1006''
   \<and> replace_hash (replace_hash ''#1006'') = replace_hash ''#1006''
   \<and> ordersQuery (replace_hash ''#1006'') = ordersQuery (replace_hash ''1006'')
   \<and> getOrder_A sample_env ''#1006'' = getOrder_A sample_env ''1006''
   \<and> getOrder_B sample_env ''#1006'' = getOrder_B sample_env ''1006''
   \<and> uploadPayment_A sample_env ''#1006'' (Some sample_file)
       = uploadPayment_A sample_env ''1006'' (Some sample_file)
   \<and> uploadPayment_B sample_env ''#1006'' (Some sample_file)
       = uploadPayment_B sample_env ''1006'' (Some sample_file)
   \<and> confirmPayment_A sample_env ''#1006'' = confirmPayment_A sample_env ''1006''
   \<and> confirmPayment_B sample_env ''#1006'' = confirmPayment_B sample_env ''1006''
   \<and> cancelOrder_A sample_env ''#1006'' None = cancelOrder_A sample_env ''1006'' None
   \<and> cancelOrder_B sample_env ''#1006'' None = cancelOrder_B sample_env ''1006'' None
   \<and> replace_hash ''10#06'' = ''1006''"
  using clean_order_number
          [where n = "''1006''" and env = sample_env and attached = "Some sample_file"
             and reason = None and s = "''#1006''" and a = "''10''" and b = "''06''"]
  by simp

section \<open>Uploading a payment slip\<close>

text \<open>
  Claim C9. With no file attached, the upload handler of either file answers 400 with
  the text that no file was uploaded, and has sent no request at all: neither the order
  search nor a metafield read or write.
\<close>

theorem upload_without_file:
  "uploadPayment_A env orderNumber None = ((400, Failure MsgNoFileUploaded), [])
   \<and> uploadPayment_B env orderNumber None = ((400, Failure MsgNoFileUploaded), [])"
  by (simp add: uploadPayment_A_def uploadPayment_B_def try_catch_def yield_def)

text \<open>
  The last statement of file A's handler throws, so the handler never answers 200,
  whatever the environment does.
\<close>

lemma await_throw: "await (throw e) f = throw e"
  by (simp add: await_def throw_def)

lemma uploadPayment_A_never_succeeds:
  "fst (fst (uploadPayment_A env orderNumber file)) \<noteq> 200"
  unfolding uploadPayment_A_def try_catch_def Let_def await_throw
  by (auto simp add: await_def yield_def throw_def
      split: prod.splits sum.splits option.splits list.splits if_splits)

lemma uploadPayment_B_echo:
  assumes "firstOrder (makeShopifyRequest_B env (ordersQuery (replace_hash orderNumber)) GET None)
             = Some order"
    and "\<And>endpoint method data. \<exists>p. fst (makeShopifyRequest_B env endpoint method data) = Inr p"
  shows "fst (uploadPayment_B env orderNumber (Some file)) =
           (200, SlipUploaded MsgSlipUploaded
                   \<lparr>echo_name = originalname file, echo_size = file_size file,
                    echo_uploadedAt = clockISO env\<rparr>)"
proof -
  from firstOrder_SomeD[OF assms(1)] obtain r rest sent where
    s: "makeShopifyRequest_B env (ordersQuery (replace_hash orderNumber)) GET None = (Inr r, sent)"
    and o: "orders r = Some (order # rest)" by metis
  have ok: "\<exists>p t. makeShopifyRequest_B env endpoint verb written = (Inr p, t)"
    for endpoint verb written
    using assms(2)[of endpoint verb written] by (metis prod.collapse)
  obtain mr mt where
    m: "makeShopifyRequest_B env (''orders/'' @ order_id order @ ''/metafields.json'') GET None
          = (Inr mr, mt)" using ok by blast
  show ?thesis
  proof (cases "findMetafield mr ''payment_slip''")
    case None
    obtain wr wt where
      "makeShopifyRequest_B env (''orders/'' @ order_id order @ ''/metafields.json'') POST
         (Some (MetafieldData ''custom'' ''payment_slip''
            (SlipJson \<lparr>fd_filename = originalname file, fd_mimetype = mimetype file,
               fd_size = file_size file, fd_uploadedAt = clockISO env,
               fd_data = toBase64 env (buffer file)\<rparr>) ''json'')) = (Inr wr, wt)"
      using ok by blast
    with None show ?thesis
      unfolding uploadPayment_B_def Let_def
      by (simp add: await_def s o m[simplified] yield_def try_catch_def)
  next
    case (Some mf)
    obtain wr wt where
      "makeShopifyRequest_B env
         (''orders/'' @ order_id order @ ''/metafields/'' @ mf_id mf @ ''.json'') PUT
         (Some (MetafieldData ''custom'' ''payment_slip''
            (SlipJson \<lparr>fd_filename = originalname file, fd_mimetype = mimetype file,
               fd_size = file_size file, fd_uploadedAt = clockISO env,
               fd_data = toBase64 env (buffer file)\<rparr>) ''json'')) = (Inr wr, wt)"
      using ok by blast
    with Some show ?thesis
      unfolding uploadPayment_B_def Let_def
      by (simp add: await_def s o m[simplified] yield_def try_catch_def)
  qed
qed

text \<open>
  Claim C6 asks for a success message with an echo of the file's name, size and upload
  time after a successful upload, in both files. File A does not do that. In the sample
  environment the order is found and every request succeeds: the handler stages the
  upload, sends the file, creates the file on the platform and writes the metafield, and
  then answers 500 with the text that an error occurred while uploading the file.
\<close>

theorem upload_A_answers_500:
  "uploadPayment_A sample_env ''#1006'' (Some sample_file) =
     ((500, Failure MsgErrorUploadingFile),
      [Shopify (shopifyOptions sample_env ''orders.json?name=1006&status=any'' GET None),
       Shopify (shopifyOptions sample_env ''graphql.json'' POST
                  (Some (GraphqlQuery (StagedUploadsCreate ''slip.png'' ''image/png'')))),
       Storage \<lparr>up_hostname = ''storage.example'', up_path = ''/upload?x=1'',
                up_fields = [(''policy'', ''p1'')], up_file = sample_file\<rparr>,
       Shopify (shopifyOptions sample_env ''graphql.json'' POST
                  (Some (GraphqlQuery
                     (FileCreate ''Payment slip for order #1006''
                        ''https://storage.example/tmp/slip.png'')))),
       Shopify (shopifyOptions sample_env ''orders/5001/metafields.json'' GET None),
       Shopify (shopifyOptions sample_env ''orders/5001/metafields/77.json'' PUT
                  (Some (MetafieldData ''custom'' ''payment_slip''
                           (FileId ''gid://shopify/MediaImage/2'') ''file_reference'')))])"
  by (simp add: uploadPayment_A_def try_catch_def await_def yield_def throw_def
      makeShopifyRequest_A_def makeShopifyGraphQLRequest_def uploadToStorage_def
      shopifyOptions_def ordersQuery_def hasErrors_def stagedUserErrors_def
      fileUserErrors_def firstStagedTarget_def firstFile_def findMetafield_def
      sample_env_def sample_net_def sample_parse_def sample_order_def sample_slip_def
      sample_target_def sample_file_def)

text \<open>
  File B does what the claim says: when the order is located and every request
  resolves, it answers 200 with the success text and the echo, whose upload time is the
  one stored in the metafield.
\<close>

lemma upload_B_answers_200:
  "fst (uploadPayment_B sample_env ''#1006'' (Some sample_file)) =
     (200, SlipUploaded MsgSlipUploaded
             \<lparr>echo_name = ''slip.png'', echo_size = 3,
              echo_uploadedAt = ''2024-03-02T10:00:00.000Z''\<rparr>)"
  by (simp add: uploadPayment_B_def try_catch_def await_def yield_def throw_def
      makeShopifyRequest_B_def 
      shopifyOptions_def ordersQuery_def findMetafield_def
      sample_env_def sample_net_def sample_parse_def sample_order_def sample_slip_def
      sample_file_def)

section \<open>A payment slip that is not JSON\<close>

text \<open>
  Claim C10. In file B, when the order is located, the metafields are fetched, the
  \<open>payment_slip\<close> metafield exists and its value is not valid JSON, the lookup handler
  sends no view: \<open>JSON.parse\<close> throws and the handler answers 500 with the text that
  an error occurred while fetching the order, after both requests have succeeded.
\<close>

theorem lookup_unparsable_slip:
  assumes "firstOrder (makeShopifyRequest_B env (ordersQuery (replace_hash orderNumber)) GET None)
             = Some order"
    and "fst (makeShopifyRequest_B env (''orders/'' @ order_id order @ ''/metafields.json'')
                GET None) = Inr metafieldsResponse"
    and "findMetafield metafieldsResponse ''payment_slip'' = Some mf"
    and "jsonParseValue env (mf_value mf) = None"
  shows "getOrder_B env orderNumber =
           ((500, Failure MsgErrorFetchingOrder),
            [Shopify (shopifyOptions env (ordersQuery (replace_hash orderNumber)) GET None),
             Shopify (shopifyOptions env (''orders/'' @ order_id order @ ''/metafields.json'')
                        GET None)])"
proof -
  from firstOrder_SomeD[OF assms(1)] obtain r rest where
    s: "makeShopifyRequest_B env (ordersQuery (replace_hash orderNumber)) GET None
          = (Inr r, [Shopify (shopifyOptions env (ordersQuery (replace_hash orderNumber)) GET None)])"
    and o: "orders r = Some (order # rest)"
    by (metis sent_B)
  from assms(2) have m:
    "makeShopifyRequest_B env (''orders/'' @ order_id order @ ''/metafields.json'') GET None
       = (Inr metafieldsResponse,
          [Shopify (shopifyOptions env (''orders/'' @ order_id order @ ''/metafields.json'')
                        GET None)])"
    by (metis prod.collapse sent_B)
  show ?thesis
    unfolding getOrder_B_def Let_def
    by (simp add: await_def s o m[simplified] assms(3,4) throw_def try_catch_def)
qed

theorem lookup_unparsable_slip_witness:
  "getOrder_B sample_env ''#1006'' =
     ((500, Failure MsgErrorFetchingOrder),
      [Shopify (shopifyOptions sample_env ''orders.json?name=1006&status=any'' GET None),
       Shopify (shopifyOptions sample_env ''orders/5001/metafields.json'' GET None)])"
proof -
  have m: "fst (makeShopifyRequest_B sample_env
                  (''orders/'' @ order_id sample_order @ ''/metafields.json'') GET None)
             = Inr \<lparr>orders = None, metafields = Some [sample_slip], gql = None\<rparr>"
    by (simp add: makeShopifyRequest_B_def shopifyOptions_def sample_env_def sample_net_def
        sample_parse_def sample_order_def)
  have f: "findMetafield \<lparr>orders = None, metafields = Some [sample_slip], gql = None\<rparr>
             ''payment_slip'' = Some sample_slip"
    by (simp add: findMetafield_def sample_slip_def)
  have p: "jsonParseValue sample_env (mf_value sample_slip) = None"
    by (simp add: sample_env_def)
  from lookup_unparsable_slip[OF sample_search_B m f p] show ?thesis
    by (simp add: ordersQuery_def sample_order_def)
qed

end
